theory Spec2Isabelle
  imports Complex_Main
begin

section \<open>The payment router: data model\<close>

text \<open>
  The router \<^verbatim>\<open>src/server/api/routers/payment.ts\<close> has three procedures,
  \<^verbatim>\<open>initializePayment\<close>, \<^verbatim>\<open>completePayment\<close> and \<^verbatim>\<open>getOrderStatus\<close>. They work on
  three order tables and talk to three kinds of collaborators that are not part of the
  router: the PayPal verifier, the recharge (crediting) callers of the context and the
  database schema. The collaborators are parameters of the model.

  A JavaScript number is only ever passed on by the router, never computed with, so it is
  a real here. A value that may be \<^verbatim>\<open>undefined\<close> or \<^verbatim>\<open>null\<close> is an option.
\<close>

type_synonym number = real
type_synonym timestamp = nat

datatype productType = Vip | Svip | GoldCoin | Translate

datatype trpc_code = NOT_FOUND | INTERNAL_SERVER_ERROR | PAYMENT_FAILED | BAD_REQUEST

text \<open>
  A thrown value: a \<^verbatim>\<open>TRPCError\<close> with its code and message, or any other error value
  (of the database driver, the verifier or a recharge caller), kept by its text.
\<close>

datatype error = TRPCError trpc_code string | Thrown string

record iUser_row =
  user_id :: int
  clerkId :: string
  nickname :: "string option"

text \<open>The columns the three order tables share, as far as the router touches them.\<close>

record order_common =
  orderNo :: string
  buyUserId :: int
  buyNickname :: "string option"
  recipientUserId :: int
  amount :: string
  payType :: int
  status :: int
  payTime :: "timestamp option"

record iRecordVip_row = order_common +
  vipLevel :: "number option"
  month :: "number option"

record iRecordGoldCoin_row = order_common +
  goldCoin :: "number option"

record iRecordTranslate_row = order_common +
  characterNum :: "number option"

record database =
  iUser :: "iUser_row list"
  iRecordVip :: "iRecordVip_row list"
  iRecordGoldCoin :: "iRecordGoldCoin_row list"
  iRecordTranslate :: "iRecordTranslate_row list"

text \<open>The \<^verbatim>\<open>productDetails\<close> object of the \<^verbatim>\<open>initializePayment\<close> input; every field is optional.\<close>

record productDetails =
  pd_vipLevel :: "number option"
  pd_month :: "number option"
  pd_goldCoin :: "number option"
  pd_giveGoldCoin :: "number option"
  pd_character :: "number option"

text \<open>What \<^verbatim>\<open>verifyPayPalPayment\<close> resolves to.\<close>

record verificationResult =
  vr_verified :: bool
  vr_amount :: "number option"
  vr_error :: "string option"

text \<open>
  The calls the router makes to its collaborators, with their arguments in the order
  of the source: the verifier gets \<^verbatim>\<open>(paypalOrderId, expectedAmount)\<close>, a recharge caller
  gets \<^verbatim>\<open>orderNo\<close>, the payload, \<^verbatim>\<open>amount\<close> and \<^verbatim>\<open>paypalOrderId\<close>.
\<close>

datatype external_call =
    VerifyPayPalPayment string number
  | RechargeVip string "number option" "number option" "number option" string
  | RechargeGoldCoin string "number option" "number option" string
  | RechargeTranslate string "number option" "number option" string

text \<open>The calls of the trace that went to a recharge (crediting) caller.\<close>

fun is_recharge :: "external_call \<Rightarrow> bool" where
  "is_recharge (VerifyPayPalPayment pid x) = False"
| "is_recharge (RechargeVip ono lvl m amt pid) = True"
| "is_recharge (RechargeGoldCoin ono g amt pid) = True"
| "is_recharge (RechargeTranslate ono ch amt pid) = True"

text \<open>
  The state a procedure runs in: the database, what was written with \<^verbatim>\<open>console.error\<close>
  (label and error value), and the trace of calls to collaborators.
\<close>

record world =
  db :: database
  console :: "(string \<times> error) list"
  calls :: "external_call list"

text \<open>
  The request context: the caller's identity and the three recharge callers
  \<^verbatim>\<open>ctx.recharge.*.mutate\<close>. A recharge caller may change the database and may throw.
\<close>

record ctx =
  userId :: string
  rechargeVip ::
    "string \<Rightarrow> number option \<Rightarrow> number option \<Rightarrow> number option \<Rightarrow> string \<Rightarrow>
       database \<Rightarrow> error option \<times> database"
  rechargeGoldCoin ::
    "string \<Rightarrow> number option \<Rightarrow> number option \<Rightarrow> string \<Rightarrow>
       database \<Rightarrow> error option \<times> database"
  rechargeTranslate ::
    "string \<Rightarrow> number option \<Rightarrow> number option \<Rightarrow> string \<Rightarrow>
       database \<Rightarrow> error option \<times> database"

text \<open>
  What the module imports or reads from the runtime.
  \<^item> The verifier: it resolves or throws.
  \<^item> \<^verbatim>\<open>Date.now()\<close>, in milliseconds.
  \<^item> The random draw, taken as the integer \<^verbatim>\<open>Math.floor(Math.random() * 1000)\<close>: the
    product is floating-point arithmetic, its floor is one of 0, ..., 999.
  \<^item> For each table of the schema, the check that makes an insert throw (a constraint of
    the schema, or any failure of the driver); \<open>None\<close> accepts the row.
  \<^item> The rejection of the order lookup of \<^verbatim>\<open>completePayment\<close> by the driver, if there is
    one. That lookup runs inside the \<^verbatim>\<open>try\<close> block, so the router's own \<^verbatim>\<open>catch\<close> handles
    its failure. The reads of the two other procedures run under no handler of the
    router: a rejection there leaves the procedure as the driver threw it, with no state
    touched, and is not modelled.
\<close>

record env =
  verifyPayPalPayment :: "string \<Rightarrow> number \<Rightarrow> error + verificationResult"
  now :: nat
  random :: nat
  reject_iRecordVip :: "iRecordVip_row list \<Rightarrow> iRecordVip_row \<Rightarrow> error option"
  reject_iRecordGoldCoin :: "iRecordGoldCoin_row list \<Rightarrow> iRecordGoldCoin_row \<Rightarrow> error option"
  reject_iRecordTranslate :: "iRecordTranslate_row list \<Rightarrow> iRecordTranslate_row \<Rightarrow> error option"
  reject_query :: "string \<Rightarrow> error option"

text \<open>The row \<^verbatim>\<open>let order\<close> holds in \<^verbatim>\<open>completePayment\<close> and \<^verbatim>\<open>getOrderStatus\<close>.\<close>

datatype order =
    VipOrder iRecordVip_row
  | GoldCoinOrder iRecordGoldCoin_row
  | TranslateOrder iRecordTranslate_row

text \<open>The object \<^verbatim>\<open>getOrderStatus\<close> returns.\<close>

record orderStatus =
  os_orderNo :: string
  os_status :: int
  os_amount :: string
  os_payTime :: "timestamp option"

section \<open>String constants of the source\<close>

text \<open>The messages are Chinese text; a string is its UTF-8 bytes.\<close>

definition msg_user_not_found :: string where
  "msg_user_not_found =
     [CHR 0xE7, CHR 0x94, CHR 0xA8, CHR 0xE6, CHR 0x88, CHR 0xB7, CHR 0xE4, CHR 0xB8,
      CHR 0x8D, CHR 0xE5, CHR 0xAD, CHR 0x98, CHR 0xE5, CHR 0x9C, CHR 0xA8]"

definition msg_create_failed :: string where
  "msg_create_failed =
     [CHR 0xE5, CHR 0x88, CHR 0x9B, CHR 0xE5, CHR 0xBB, CHR 0xBA, CHR 0xE8, CHR 0xAE,
      CHR 0xA2, CHR 0xE5, CHR 0x8D, CHR 0x95, CHR 0xE5, CHR 0xA4, CHR 0xB1, CHR 0xE8,
      CHR 0xB4, CHR 0xA5]"

definition log_create_failed :: string where
  "log_create_failed = msg_create_failed @ '':''"

definition msg_order_not_found :: string where
  "msg_order_not_found =
     [CHR 0xE8, CHR 0xAE, CHR 0xA2, CHR 0xE5, CHR 0x8D, CHR 0x95, CHR 0xE4, CHR 0xB8,
      CHR 0x8D, CHR 0xE5, CHR 0xAD, CHR 0x98, CHR 0xE5, CHR 0x9C, CHR 0xA8]"

definition msg_order_state :: string where
  "msg_order_state =
     [CHR 0xE8, CHR 0xAE, CHR 0xA2, CHR 0xE5, CHR 0x8D, CHR 0x95, CHR 0xE7, CHR 0x8A,
      CHR 0xB6, CHR 0xE6, CHR 0x80, CHR 0x81, CHR 0xE5, CHR 0xBC, CHR 0x82, CHR 0xE5,
      CHR 0xB8, CHR 0xB8]"

definition log_complete_failed :: string where
  "log_complete_failed =
     [CHR 0xE6, CHR 0x94, CHR 0xAF, CHR 0xE4, CHR 0xBB, CHR 0x98, CHR 0xE5, CHR 0xAE,
      CHR 0x8C, CHR 0xE6, CHR 0x88, CHR 0x90, CHR 0xE5, CHR 0xA4, CHR 0x84, CHR 0xE7,
      CHR 0x90, CHR 0x86, CHR 0xE5, CHR 0xA4, CHR 0xB1, CHR 0xE8, CHR 0xB4, CHR 0xA5,
      CHR 0x3A]"

section \<open>Helpers of the runtime\<close>

text \<open>\<^verbatim>\<open>Number.prototype.toString\<close> on a natural number: its decimal digits.\<close>

fun toString :: "nat \<Rightarrow> string" where
  "toString n =
     (if n < 10 then [''0123456789'' ! n]
      else toString (n div 10) @ [''0123456789'' ! (n mod 10)])"

declare toString.simps [simp del]

text \<open>\<^verbatim>\<open>s.padStart(n, c)\<close> for a one-character pad.\<close>

definition padStart :: "nat \<Rightarrow> char \<Rightarrow> string \<Rightarrow> string" where
  "padStart n c s = replicate (n - length s) c @ s"

text \<open>
  \<^verbatim>\<open>`${Date.now()}${Math.floor(Math.random() * 1000).toString().padStart(3, '0')}`\<close>,
  from the time and the floored draw; \<open>mod\<close> keeps the draw in its range.
\<close>

definition generateOrderNo :: "nat \<Rightarrow> nat \<Rightarrow> string" where
  "generateOrderNo t k = toString t @ padStart 3 (CHR ''0'') (toString (k mod 1000))"

text \<open>
  \<^verbatim>\<open>findFirst({ where: ... })\<close>: the first row that satisfies the condition, or nothing.
  The tables are lists in insertion order.
\<close>

definition findFirst :: "('a \<Rightarrow> bool) \<Rightarrow> 'a list \<Rightarrow> 'a option" where
  "findFirst P rows = List.find P rows"

text \<open>
  \<^verbatim>\<open>insert(table).values(row)\<close>: one statement, which either throws and leaves the table as
  it was, or adds the row.
\<close>

definition db_insert :: "('a list \<Rightarrow> 'a \<Rightarrow> error option) \<Rightarrow> 'a \<Rightarrow> 'a list \<Rightarrow> error + 'a list" where
  "db_insert reject row rows =
     (case reject rows row of Some e \<Rightarrow> Inl e | None \<Rightarrow> Inr (rows @ [row]))"

text \<open>\<^verbatim>\<open>s || d\<close> for an optional string: the empty string is falsy as well.\<close>

definition or_default :: "string option \<Rightarrow> string \<Rightarrow> string" where
  "or_default s d = (case s of None \<Rightarrow> d | Some t \<Rightarrow> if t = [] then d else t)"

section \<open>initializePayment\<close>

text \<open>
  The body of the \<^verbatim>\<open>try\<close> block up to the \<^verbatim>\<open>return\<close>: the chain of branches on
  \<^verbatim>\<open>productType\<close>, each with its one insert. The non-null assertions \<^verbatim>\<open>!\<close> do nothing at
  run time. The columns the router does not set take the default of the schema;
  \<^verbatim>\<open>payTime\<close> is unset until the order is settled.
\<close>

definition insert_order ::
  "env \<Rightarrow> productType \<Rightarrow> string \<Rightarrow> iUser_row \<Rightarrow> string \<Rightarrow> productDetails \<Rightarrow> database
     \<Rightarrow> error + database" where
  "insert_order e pt ono user amt pd d =
     (if pt = Vip \<or> pt = Svip then
        (case db_insert (reject_iRecordVip e)
                \<lparr>orderNo = ono, buyUserId = user_id user, buyNickname = nickname user,
                 recipientUserId = user_id user, amount = amt, payType = 3, status = 0,
                 payTime = None, vipLevel = pd_vipLevel pd, month = pd_month pd\<rparr>
                (iRecordVip d) of
           Inl err \<Rightarrow> Inl err
         | Inr t \<Rightarrow> Inr (d\<lparr>iRecordVip := t\<rparr>))
      else if pt = GoldCoin then
        (case db_insert (reject_iRecordGoldCoin e)
                \<lparr>orderNo = ono, buyUserId = user_id user, buyNickname = nickname user,
                 recipientUserId = user_id user, amount = amt, payType = 3, status = 0,
                 payTime = None, goldCoin = pd_goldCoin pd\<rparr>
                (iRecordGoldCoin d) of
           Inl err \<Rightarrow> Inl err
         | Inr t \<Rightarrow> Inr (d\<lparr>iRecordGoldCoin := t\<rparr>))
      else if pt = Translate then
        (case db_insert (reject_iRecordTranslate e)
                \<lparr>orderNo = ono, buyUserId = user_id user, buyNickname = nickname user,
                 recipientUserId = user_id user, amount = amt, payType = 3, status = 0,
                 payTime = None, characterNum = pd_character pd\<rparr>
                (iRecordTranslate d) of
           Inl err \<Rightarrow> Inl err
         | Inr t \<Rightarrow> Inr (d\<lparr>iRecordTranslate := t\<rparr>))
      else Inr d)"

text \<open>
  The procedure: resolve the caller, generate the order number, insert; an error of the
  insert is logged and replaced by \<^verbatim>\<open>INTERNAL_SERVER_ERROR\<close>. The result is
  \<^verbatim>\<open>{success, orderNo}\<close>.
\<close>

definition initializePayment ::
  "env \<Rightarrow> ctx \<Rightarrow> string \<Rightarrow> productType \<Rightarrow> productDetails \<Rightarrow> world
     \<Rightarrow> (error + bool \<times> string) \<times> world" where
  "initializePayment e c amt pt pd w =
     (case findFirst (\<lambda>u. clerkId u = userId c) (iUser (db w)) of
        None \<Rightarrow> (Inl (TRPCError NOT_FOUND msg_user_not_found), w)
      | Some user \<Rightarrow>
          (let ono = generateOrderNo (now e) (random e) in
           case insert_order e pt ono user amt pd (db w) of
             Inl err \<Rightarrow>
               (Inl (TRPCError INTERNAL_SERVER_ERROR msg_create_failed),
                w\<lparr>console := console w @ [(log_create_failed, err)]\<rparr>)
           | Inr d \<Rightarrow> (Inr (True, ono), w\<lparr>db := d\<rparr>)))"

section \<open>completePayment\<close>

text \<open>Step 2 of the source, shared with \<^verbatim>\<open>getOrderStatus\<close>: the lookup by \<^verbatim>\<open>productType\<close>.\<close>

definition find_order :: "productType \<Rightarrow> string \<Rightarrow> database \<Rightarrow> order option" where
  "find_order pt ono d =
     (if pt = Vip \<or> pt = Svip then
        map_option VipOrder (findFirst (\<lambda>r. orderNo r = ono) (iRecordVip d))
      else if pt = GoldCoin then
        map_option GoldCoinOrder (findFirst (\<lambda>r. orderNo r = ono) (iRecordGoldCoin d))
      else if pt = Translate then
        map_option TranslateOrder (findFirst (\<lambda>r. orderNo r = ono) (iRecordTranslate d))
      else None)"

text \<open>Property reads on \<^verbatim>\<open>order\<close>; a property the row does not have reads as \<^verbatim>\<open>undefined\<close>.\<close>

fun order_common_of :: "order \<Rightarrow> order_common" where
  "order_common_of (VipOrder r) = order_common.truncate r"
| "order_common_of (GoldCoinOrder r) = order_common.truncate r"
| "order_common_of (TranslateOrder r) = order_common.truncate r"

fun order_vipLevel :: "order \<Rightarrow> number option" where
  "order_vipLevel (VipOrder r) = vipLevel r"
| "order_vipLevel _ = None"

fun order_month :: "order \<Rightarrow> number option" where
  "order_month (VipOrder r) = month r"
| "order_month _ = None"

fun order_goldCoin :: "order \<Rightarrow> number option" where
  "order_goldCoin (GoldCoinOrder r) = goldCoin r"
| "order_goldCoin _ = None"

fun order_characterNum :: "order \<Rightarrow> number option" where
  "order_characterNum (TranslateOrder r) = characterNum r"
| "order_characterNum _ = None"

text \<open>
  Step 3: the dispatch to the recharge caller. The call is recorded in the trace, then
  the caller runs on the database; \<open>Some err\<close> is what it threw.
\<close>

definition recharge ::
  "ctx \<Rightarrow> productType \<Rightarrow> string \<Rightarrow> order \<Rightarrow> number option \<Rightarrow> string \<Rightarrow> world
     \<Rightarrow> error option \<times> world" where
  "recharge c pt ono ord amt pid w =
     (if pt = Vip \<or> pt = Svip then
        (let r = rechargeVip c ono (order_vipLevel ord) (order_month ord) amt pid (db w) in
         (fst r,
          w\<lparr>db := snd r,
            calls := calls w @ [RechargeVip ono (order_vipLevel ord) (order_month ord) amt pid]\<rparr>))
      else if pt = GoldCoin then
        (let r = rechargeGoldCoin c ono (order_goldCoin ord) amt pid (db w) in
         (fst r,
          w\<lparr>db := snd r,
            calls := calls w @ [RechargeGoldCoin ono (order_goldCoin ord) amt pid]\<rparr>))
      else if pt = Translate then
        (let r = rechargeTranslate c ono (order_characterNum ord) amt pid (db w) in
         (fst r,
          w\<lparr>db := snd r,
            calls := calls w @ [RechargeTranslate ono (order_characterNum ord) amt pid]\<rparr>))
      else (None, w))"

text \<open>
  The lookup as the \<^verbatim>\<open>try\<close> block awaits it: the driver rejects, or the table is read.
\<close>

definition query_order :: "env \<Rightarrow> productType \<Rightarrow> string \<Rightarrow> database \<Rightarrow> error + order option" where
  "query_order e pt ono d =
     (case reject_query e ono of Some err \<Rightarrow> Inl err | None \<Rightarrow> Inr (find_order pt ono d))"

text \<open>
  The body of the \<^verbatim>\<open>try\<close> block: verify, look the order up, check its status, recharge.
  \<open>Inl\<close> is whatever was thrown inside the block.
\<close>

definition completePayment_try ::
  "env \<Rightarrow> ctx \<Rightarrow> string \<Rightarrow> string \<Rightarrow> productType \<Rightarrow> number \<Rightarrow> world
     \<Rightarrow> (error + bool \<times> verificationResult) \<times> world" where
  "completePayment_try e c ono pid pt expectedAmount w =
     (let w1 = w\<lparr>calls := calls w @ [VerifyPayPalPayment pid expectedAmount]\<rparr> in
      case verifyPayPalPayment e pid expectedAmount of
        Inl err \<Rightarrow> (Inl err, w1)
      | Inr vr \<Rightarrow>
          if \<not> vr_verified vr then
            (Inl (TRPCError PAYMENT_FAILED
                    (or_default (vr_error vr) ''Payment verification failed'')), w1)
          else
            (case query_order e pt ono (db w1) of
               Inl err \<Rightarrow> (Inl err, w1)
             | Inr found \<Rightarrow>
                 (case found of
                    None \<Rightarrow> (Inl (TRPCError NOT_FOUND msg_order_not_found), w1)
                  | Some ord \<Rightarrow>
                      if status (order_common_of ord) \<noteq> 0 then
                        (Inl (TRPCError BAD_REQUEST msg_order_state), w1)
                      else
                        (case recharge c pt ono ord (vr_amount vr) pid w1 of
                           (Some err, w2) \<Rightarrow> (Inl err, w2)
                         | (None, w2) \<Rightarrow> (Inr (True, vr), w2)))))"

text \<open>The procedure: the \<^verbatim>\<open>catch\<close> logs the error and throws it again.\<close>

definition completePayment ::
  "env \<Rightarrow> ctx \<Rightarrow> string \<Rightarrow> string \<Rightarrow> productType \<Rightarrow> number \<Rightarrow> world
     \<Rightarrow> (error + bool \<times> verificationResult) \<times> world" where
  "completePayment e c ono pid pt expectedAmount w =
     (case completePayment_try e c ono pid pt expectedAmount w of
        (Inl err, w') \<Rightarrow> (Inl err, w'\<lparr>console := console w' @ [(log_complete_failed, err)]\<rparr>)
      | (Inr res, w') \<Rightarrow> (Inr res, w'))"

section \<open>getOrderStatus\<close>

definition getOrderStatus ::
  "string \<Rightarrow> productType \<Rightarrow> world \<Rightarrow> (error + orderStatus) \<times> world" where
  "getOrderStatus ono pt w =
     (case find_order pt ono (db w) of
        None \<Rightarrow> (Inl (TRPCError NOT_FOUND msg_order_not_found), w)
      | Some ord \<Rightarrow>
          (Inr \<lparr>os_orderNo = orderNo (order_common_of ord),
                os_status = status (order_common_of ord),
                os_amount = amount (order_common_of ord),
                os_payTime = payTime (order_common_of ord)\<rparr>, w))"

section \<open>A notion for the statements\<close>

text \<open>
  Not a function of the source: the database with one more order row, at the end of the
  table of that row. The theorems about \<^verbatim>\<open>initializePayment\<close> say with it which rows the
  procedure created.
\<close>

fun add_order :: "order \<Rightarrow> database \<Rightarrow> database" where
  "add_order (VipOrder r) d = d\<lparr>iRecordVip := iRecordVip d @ [r]\<rparr>"
| "add_order (GoldCoinOrder r) d = d\<lparr>iRecordGoldCoin := iRecordGoldCoin d @ [r]\<rparr>"
| "add_order (TranslateOrder r) d = d\<lparr>iRecordTranslate := iRecordTranslate d @ [r]\<rparr>"

section \<open>Concrete collaborators and states\<close>

text \<open>
  A buyer; a verifier that confirms 9.99, one that does not and one that throws; a schema
  with no constraint and one with unique order numbers in the gold-coin table; a driver
  that rejects the order lookup; recharge callers that acknowledge and ones that throw;
  and states with no order, with a settled gold-coin order, with a pending one, and with
  one pending order in each table.
\<close>

definition ex_user :: iUser_row where
  "ex_user = \<lparr>user_id = 7, clerkId = ''user_abc'', nickname = Some ''Ann''\<rparr>"

definition ex_verified :: verificationResult where
  "ex_verified = \<lparr>vr_verified = True, vr_amount = Some (999 / 100), vr_error = None\<rparr>"

definition ex_unverified :: verificationResult where
  "ex_unverified = \<lparr>vr_verified = False, vr_amount = None, vr_error = None\<rparr>"

definition ex_env :: env where
  "ex_env =
     \<lparr>verifyPayPalPayment = (\<lambda>pid x. Inr ex_verified),
      now = 1700000000000,
      random = 125,
      reject_iRecordVip = (\<lambda>rows r. None),
      reject_iRecordGoldCoin = (\<lambda>rows r. None),
      reject_iRecordTranslate = (\<lambda>rows r. None),
      reject_query = (\<lambda>ono. None)\<rparr>"

definition ex_env_unverified :: env where
  "ex_env_unverified = ex_env\<lparr>verifyPayPalPayment := (\<lambda>pid x. Inr ex_unverified)\<rparr>"

definition ex_env_throwing :: env where
  "ex_env_throwing = ex_env\<lparr>verifyPayPalPayment := (\<lambda>pid x. Inl (Thrown ''ECONNRESET''))\<rparr>"

definition ex_env_offline :: env where
  "ex_env_offline = ex_env\<lparr>reject_query := (\<lambda>ono. Some (Thrown ''connection terminated''))\<rparr>"

definition ex_env_unique :: env where
  "ex_env_unique =
     ex_env\<lparr>reject_iRecordGoldCoin :=
       (\<lambda>rows r. if orderNo r \<in> set (map orderNo rows) then Some (Thrown ''duplicate key'') else None)\<rparr>"

definition ex_ctx :: ctx where
  "ex_ctx =
     \<lparr>userId = ''user_abc'',
      rechargeVip = (\<lambda>ono lvl m amt pid d. (None, d)),
      rechargeGoldCoin = (\<lambda>ono g amt pid d. (None, d)),
      rechargeTranslate = (\<lambda>ono ch amt pid d. (None, d))\<rparr>"

definition ex_ctx_failing :: ctx where
  "ex_ctx_failing =
     \<lparr>userId = ''user_abc'',
      rechargeVip = (\<lambda>ono lvl m amt pid d. (Some (Thrown ''vip recharge unavailable''), d)),
      rechargeGoldCoin = (\<lambda>ono g amt pid d. (Some (Thrown ''recharge unavailable''), d)),
      rechargeTranslate =
        (\<lambda>ono ch amt pid d. (Some (TRPCError INTERNAL_SERVER_ERROR ''translate recharge''), d))\<rparr>"

definition ex_ctx_stranger :: ctx where
  "ex_ctx_stranger = ex_ctx\<lparr>userId := ''user_xyz''\<rparr>"

definition ex_details :: productDetails where
  "ex_details =
     \<lparr>pd_vipLevel = None, pd_month = None, pd_goldCoin = Some 500,
      pd_giveGoldCoin = None, pd_character = None\<rparr>"

definition ex_world :: world where
  "ex_world =
     \<lparr>db = \<lparr>iUser = [ex_user], iRecordVip = [], iRecordGoldCoin = [], iRecordTranslate = []\<rparr>,
      console = [], calls = []\<rparr>"

definition ex_pending :: iRecordGoldCoin_row where
  "ex_pending =
     \<lparr>orderNo = ''1700000000000125'', buyUserId = 7, buyNickname = Some ''Ann'',
      recipientUserId = 7, amount = ''9.99'', payType = 3, status = 0, payTime = None,
      goldCoin = Some 500\<rparr>"

definition ex_settled :: iRecordGoldCoin_row where
  "ex_settled =
     \<lparr>orderNo = ''1700000000000125'', buyUserId = 8, buyNickname = Some ''Bob'',
      recipientUserId = 8, amount = ''5.00'', payType = 3, status = 1,
      payTime = Some 1700000000900, goldCoin = Some 100\<rparr>"

definition ex_world_settled :: world where
  "ex_world_settled =
     \<lparr>db = \<lparr>iUser = [ex_user], iRecordVip = [], iRecordGoldCoin = [ex_settled],
            iRecordTranslate = []\<rparr>,
      console = [], calls = []\<rparr>"

definition ex_world_pending :: world where
  "ex_world_pending = ex_world\<lparr>db := (db ex_world)\<lparr>iRecordGoldCoin := [ex_pending]\<rparr>\<rparr>"

text \<open>
  Another buyer's pending gold-coin order that was created in the same millisecond with
  the same random digits, so it has the order number the next call will generate.
\<close>

definition ex_other_order :: iRecordGoldCoin_row where
  "ex_other_order =
     \<lparr>orderNo = ''1700000000000125'', buyUserId = 8, buyNickname = Some ''Bob'',
      recipientUserId = 8, amount = ''5.00'', payType = 3, status = 0, payTime = None,
      goldCoin = Some 100\<rparr>"

definition ex_world_collision :: world where
  "ex_world_collision = ex_world\<lparr>db := (db ex_world)\<lparr>iRecordGoldCoin := [ex_other_order]\<rparr>\<rparr>"

text \<open>A pending order in each table, with different payloads, and an input for a VIP order.\<close>

definition ex_vip_order :: iRecordVip_row where
  "ex_vip_order =
     \<lparr>orderNo = ''1700000000001007'', buyUserId = 7, buyNickname = Some ''Ann'',
      recipientUserId = 7, amount = ''19.99'', payType = 3, status = 0, payTime = None,
      vipLevel = Some 2, month = Some 3\<rparr>"

definition ex_translate_order :: iRecordTranslate_row where
  "ex_translate_order =
     \<lparr>orderNo = ''1700000000002050'', buyUserId = 7, buyNickname = Some ''Ann'',
      recipientUserId = 7, amount = ''4.99'', payType = 3, status = 0, payTime = None,
      characterNum = Some 10000\<rparr>"

definition ex_world_orders :: world where
  "ex_world_orders =
     \<lparr>db = \<lparr>iUser = [ex_user], iRecordVip = [ex_vip_order], iRecordGoldCoin = [ex_pending],
            iRecordTranslate = [ex_translate_order]\<rparr>,
      console = [], calls = []\<rparr>"

definition ex_vip_details :: productDetails where
  "ex_vip_details =
     \<lparr>pd_vipLevel = Some 2, pd_month = Some 3, pd_goldCoin = None,
      pd_giveGoldCoin = None, pd_character = None\<rparr>"

definition ex_vip_created :: iRecordVip_row where
  "ex_vip_created =
     \<lparr>orderNo = ''1700000000000125'', buyUserId = 7, buyNickname = Some ''Ann'',
      recipientUserId = 7, amount = ''19.99'', payType = 3, status = 0, payTime = None,
      vipLevel = Some 2, month = Some 3\<rparr>"

section \<open>Evaluation of the concrete states\<close>

lemmas ex_defs = ex_user_def ex_verified_def ex_unverified_def ex_env_def ex_env_unverified_def
  ex_env_unique_def ex_ctx_def ex_ctx_failing_def ex_ctx_stranger_def ex_details_def ex_world_def
  ex_pending_def ex_settled_def ex_world_settled_def ex_world_pending_def
  ex_other_order_def ex_world_collision_def ex_env_throwing_def ex_env_offline_def
  ex_vip_order_def ex_translate_order_def ex_world_orders_def ex_vip_details_def
  ex_vip_created_def

lemma ex_orderNo: "generateOrderNo 1700000000000 125 = ''1700000000000125''"
  by (simp add: generateOrderNo_def toString.simps padStart_def)

lemma ex_initialize:
  "initializePayment ex_env ex_ctx ''9.99'' GoldCoin ex_details ex_world =
     (Inr (True, ''1700000000000125''), ex_world_pending)"
  by (simp add: initializePayment_def insert_order_def db_insert_def findFirst_def ex_defs ex_orderNo Let_def)

lemma ex_find_settled:
  "find_order GoldCoin ''1700000000000125'' (db ex_world_settled) = Some (GoldCoinOrder ex_settled)"
  by (simp add: find_order_def findFirst_def ex_world_settled_def ex_settled_def)

lemma ex_find_nothing: "find_order Translate ''1700000000000125'' (db ex_world_pending) = None"
  by (simp add: find_order_def findFirst_def ex_world_pending_def ex_world_def)

lemma ex_no_reject: "reject_query ex_env ono = None"
  by (simp add: ex_env_def)

section \<open>Helper lemmas\<close>

lemma find_order_None_iff:
  "find_order pt ono d = None \<longleftrightarrow>
     (case pt of
        Vip \<Rightarrow> \<forall>r \<in> set (iRecordVip d). orderNo r \<noteq> ono
      | Svip \<Rightarrow> \<forall>r \<in> set (iRecordVip d). orderNo r \<noteq> ono
      | GoldCoin \<Rightarrow> \<forall>r \<in> set (iRecordGoldCoin d). orderNo r \<noteq> ono
      | Translate \<Rightarrow> \<forall>r \<in> set (iRecordTranslate d). orderNo r \<noteq> ono)"
  by (cases pt) (auto simp: find_order_def findFirst_def find_None_iff)

lemma find_order_Some:
  assumes "find_order pt ono d = Some ord"
  shows "orderNo (order_common_of ord) = ono \<and>
         ord \<in> (case pt of
                  Vip \<Rightarrow> VipOrder ` set (iRecordVip d)
                | Svip \<Rightarrow> VipOrder ` set (iRecordVip d)
                | GoldCoin \<Rightarrow> GoldCoinOrder ` set (iRecordGoldCoin d)
                | Translate \<Rightarrow> TranslateOrder ` set (iRecordTranslate d))"
  using assms
  by (cases pt)
    (auto simp: find_order_def findFirst_def find_Some_iff order_common.truncate_def
      intro!: imageI nth_mem)

lemma find_order_vip:
  "pt = Vip \<or> pt = Svip \<Longrightarrow>
   find_order pt ono d = map_option VipOrder (List.find (\<lambda>r. orderNo r = ono) (iRecordVip d))"
  by (auto simp: find_order_def findFirst_def)

lemma find_order_goldCoin:
  "find_order GoldCoin ono d =
     map_option GoldCoinOrder (List.find (\<lambda>r. orderNo r = ono) (iRecordGoldCoin d))"
  by (simp add: find_order_def findFirst_def)

lemma find_order_translate:
  "find_order Translate ono d =
     map_option TranslateOrder (List.find (\<lambda>r. orderNo r = ono) (iRecordTranslate d))"
  by (simp add: find_order_def findFirst_def)

lemma recharge_calls:
  "calls (snd (recharge c pt ono ord amt pid w)) =
     calls w @
       [case pt of
          Vip \<Rightarrow> RechargeVip ono (order_vipLevel ord) (order_month ord) amt pid
        | Svip \<Rightarrow> RechargeVip ono (order_vipLevel ord) (order_month ord) amt pid
        | GoldCoin \<Rightarrow> RechargeGoldCoin ono (order_goldCoin ord) amt pid
        | Translate \<Rightarrow> RechargeTranslate ono (order_characterNum ord) amt pid]"
  by (cases pt) (simp_all add: recharge_def Let_def)

lemma recharge_console: "console (snd (recharge c pt ono ord amt pid w)) = console w"
  by (cases pt) (simp_all add: recharge_def Let_def)

lemma recharge_vip:
  "pt = Vip \<or> pt = Svip \<Longrightarrow>
   recharge c pt ono (VipOrder r) amt pid w =
     (fst (rechargeVip c ono (vipLevel r) (month r) amt pid (db w)),
      w\<lparr>db := snd (rechargeVip c ono (vipLevel r) (month r) amt pid (db w)),
        calls := calls w @ [RechargeVip ono (vipLevel r) (month r) amt pid]\<rparr>)"
  by (auto simp: recharge_def Let_def)

lemma recharge_goldCoin:
  "recharge c GoldCoin ono (GoldCoinOrder r) amt pid w =
     (fst (rechargeGoldCoin c ono (goldCoin r) amt pid (db w)),
      w\<lparr>db := snd (rechargeGoldCoin c ono (goldCoin r) amt pid (db w)),
        calls := calls w @ [RechargeGoldCoin ono (goldCoin r) amt pid]\<rparr>)"
  by (simp add: recharge_def Let_def)

lemma recharge_translate:
  "recharge c Translate ono (TranslateOrder r) amt pid w =
     (fst (rechargeTranslate c ono (characterNum r) amt pid (db w)),
      w\<lparr>db := snd (rechargeTranslate c ono (characterNum r) amt pid (db w)),
        calls := calls w @ [RechargeTranslate ono (characterNum r) amt pid]\<rparr>)"
  by (simp add: recharge_def Let_def)

lemma try_verifier_throws:
  "verifyPayPalPayment e pid x = Inl err \<Longrightarrow>
   completePayment_try e c ono pid pt x w =
     (Inl err, w\<lparr>calls := calls w @ [VerifyPayPalPayment pid x]\<rparr>)"
  by (simp add: completePayment_try_def)

lemma try_unverified:
  "verifyPayPalPayment e pid x = Inr vr \<Longrightarrow> \<not> vr_verified vr \<Longrightarrow>
   completePayment_try e c ono pid pt x w =
     (Inl (TRPCError PAYMENT_FAILED (or_default (vr_error vr) ''Payment verification failed'')),
      w\<lparr>calls := calls w @ [VerifyPayPalPayment pid x]\<rparr>)"
  by (simp add: completePayment_try_def)

lemma try_query_rejects:
  "verifyPayPalPayment e pid x = Inr vr \<Longrightarrow> vr_verified vr \<Longrightarrow>
   reject_query e ono = Some err \<Longrightarrow>
   completePayment_try e c ono pid pt x w =
     (Inl err, w\<lparr>calls := calls w @ [VerifyPayPalPayment pid x]\<rparr>)"
  by (simp add: completePayment_try_def query_order_def)

lemma try_not_found:
  "verifyPayPalPayment e pid x = Inr vr \<Longrightarrow> vr_verified vr \<Longrightarrow>
   reject_query e ono = None \<Longrightarrow> find_order pt ono (db w) = None \<Longrightarrow>
   completePayment_try e c ono pid pt x w =
     (Inl (TRPCError NOT_FOUND msg_order_not_found),
      w\<lparr>calls := calls w @ [VerifyPayPalPayment pid x]\<rparr>)"
  by (simp add: completePayment_try_def query_order_def)

lemma try_not_pending:
  "verifyPayPalPayment e pid x = Inr vr \<Longrightarrow> vr_verified vr \<Longrightarrow>
   reject_query e ono = None \<Longrightarrow>
   find_order pt ono (db w) = Some ord \<Longrightarrow> status (order_common_of ord) \<noteq> 0 \<Longrightarrow>
   completePayment_try e c ono pid pt x w =
     (Inl (TRPCError BAD_REQUEST msg_order_state),
      w\<lparr>calls := calls w @ [VerifyPayPalPayment pid x]\<rparr>)"
  by (simp add: completePayment_try_def query_order_def)

lemma try_recharge:
  "verifyPayPalPayment e pid x = Inr vr \<Longrightarrow> vr_verified vr \<Longrightarrow>
   reject_query e ono = None \<Longrightarrow>
   find_order pt ono (db w) = Some ord \<Longrightarrow> status (order_common_of ord) = 0 \<Longrightarrow>
   completePayment_try e c ono pid pt x w =
     (let r = recharge c pt ono ord (vr_amount vr) pid
                (w\<lparr>calls := calls w @ [VerifyPayPalPayment pid x]\<rparr>)
      in (case fst r of Some err \<Rightarrow> Inl err | None \<Rightarrow> Inr (True, vr), snd r))"
  by (simp add: completePayment_try_def query_order_def Let_def split: prod.splits option.splits)

lemma completePayment_fst:
  "fst (completePayment e c ono pid pt x w) = fst (completePayment_try e c ono pid pt x w)"
  by (simp add: completePayment_def split: prod.splits sum.splits)

lemma completePayment_db:
  "db (snd (completePayment e c ono pid pt x w)) = db (snd (completePayment_try e c ono pid pt x w))"
  by (simp add: completePayment_def split: prod.splits sum.splits)

lemma completePayment_calls:
  "calls (snd (completePayment e c ono pid pt x w)) =
     calls (snd (completePayment_try e c ono pid pt x w))"
  by (simp add: completePayment_def split: prod.splits sum.splits)

text \<open>
  The crediting step, row by row: with a confirmed payment, a lookup that is not rejected
  and a pending first row for the order number, the result, the trace and the database
  are those of the one recharge call.
\<close>

lemma complete_vip:
  assumes "pt = Vip \<or> pt = Svip"
    and "verifyPayPalPayment e pid x = Inr vr" and "vr_verified vr"
    and "reject_query e ono = None"
    and "List.find (\<lambda>r. orderNo r = ono) (iRecordVip (db w)) = Some r" and "status r = 0"
  shows "fst (completePayment e c ono pid pt x w) =
           (case fst (rechargeVip c ono (vipLevel r) (month r) (vr_amount vr) pid (db w)) of
              Some err \<Rightarrow> Inl err
            | None \<Rightarrow> Inr (True, vr)) \<and>
         calls (snd (completePayment e c ono pid pt x w)) =
           calls w @
             [VerifyPayPalPayment pid x,
              RechargeVip ono (vipLevel r) (month r) (vr_amount vr) pid] \<and>
         db (snd (completePayment e c ono pid pt x w)) =
           snd (rechargeVip c ono (vipLevel r) (month r) (vr_amount vr) pid (db w))"
proof -
  have f: "find_order pt ono (db w) = Some (VipOrder r)"
    using assms(1,5) by (simp add: find_order_vip)
  have s: "status (order_common_of (VipOrder r)) = 0"
    using assms(6) by (simp add: order_common.truncate_def)
  show ?thesis
    using try_recharge [OF assms(2-4) f s, of c] assms(1)
    by (simp add: completePayment_fst completePayment_calls completePayment_db Let_def
        recharge_vip)
qed

lemma complete_goldCoin:
  assumes "verifyPayPalPayment e pid x = Inr vr" and "vr_verified vr"
    and "reject_query e ono = None"
    and "List.find (\<lambda>r. orderNo r = ono) (iRecordGoldCoin (db w)) = Some r" and "status r = 0"
  shows "fst (completePayment e c ono pid GoldCoin x w) =
           (case fst (rechargeGoldCoin c ono (goldCoin r) (vr_amount vr) pid (db w)) of
              Some err \<Rightarrow> Inl err
            | None \<Rightarrow> Inr (True, vr)) \<and>
         calls (snd (completePayment e c ono pid GoldCoin x w)) =
           calls w @
             [VerifyPayPalPayment pid x, RechargeGoldCoin ono (goldCoin r) (vr_amount vr) pid] \<and>
         db (snd (completePayment e c ono pid GoldCoin x w)) =
           snd (rechargeGoldCoin c ono (goldCoin r) (vr_amount vr) pid (db w))"
proof -
  have f: "find_order GoldCoin ono (db w) = Some (GoldCoinOrder r)"
    using assms(4) by (simp add: find_order_goldCoin)
  have s: "status (order_common_of (GoldCoinOrder r)) = 0"
    using assms(5) by (simp add: order_common.truncate_def)
  show ?thesis
    using try_recharge [OF assms(1-3) f s, of c]
    by (simp add: completePayment_fst completePayment_calls completePayment_db Let_def
        recharge_goldCoin)
qed

lemma complete_translate:
  assumes "verifyPayPalPayment e pid x = Inr vr" and "vr_verified vr"
    and "reject_query e ono = None"
    and "List.find (\<lambda>r. orderNo r = ono) (iRecordTranslate (db w)) = Some r" and "status r = 0"
  shows "fst (completePayment e c ono pid Translate x w) =
           (case fst (rechargeTranslate c ono (characterNum r) (vr_amount vr) pid (db w)) of
              Some err \<Rightarrow> Inl err
            | None \<Rightarrow> Inr (True, vr)) \<and>
         calls (snd (completePayment e c ono pid Translate x w)) =
           calls w @
             [VerifyPayPalPayment pid x,
              RechargeTranslate ono (characterNum r) (vr_amount vr) pid] \<and>
         db (snd (completePayment e c ono pid Translate x w)) =
           snd (rechargeTranslate c ono (characterNum r) (vr_amount vr) pid (db w))"
proof -
  have f: "find_order Translate ono (db w) = Some (TranslateOrder r)"
    using assms(4) by (simp add: find_order_translate)
  have s: "status (order_common_of (TranslateOrder r)) = 0"
    using assms(5) by (simp add: order_common.truncate_def)
  show ?thesis
    using try_recharge [OF assms(1-3) f s, of c]
    by (simp add: completePayment_fst completePayment_calls completePayment_db Let_def
        recharge_translate)
qed

section \<open>completePayment: the failure paths\<close>

text \<open>
  Claim C4. Whenever the provider verifier answers \<^verbatim>\<open>verified: false\<close>, \<^verbatim>\<open>completePayment\<close>
  throws \<^verbatim>\<open>PAYMENT_FAILED\<close> (with the verifier's error text, or the default message), the
  only collaborator called is the verifier, so no recharge caller runs, and the database
  is the one the call started with: every order keeps its stored state, a pending order
  stays pending.
\<close>

theorem completePayment_unverified:
  assumes "verifyPayPalPayment e pid x = Inr vr" and "\<not> vr_verified vr"
  shows "fst (completePayment e c ono pid pt x w) =
           Inl (TRPCError PAYMENT_FAILED
                  (or_default (vr_error vr) ''Payment verification failed'')) \<and>
         calls (snd (completePayment e c ono pid pt x w)) =
           calls w @ [VerifyPayPalPayment pid x] \<and>
         db (snd (completePayment e c ono pid pt x w)) = db w"
  using try_unverified [OF assms, of c ono pt w]
  by (simp add: completePayment_fst completePayment_calls completePayment_db)

theorem completePayment_unverified_witness:
  "verifyPayPalPayment ex_env_unverified ''PAYID-1'' 10 = Inr ex_unverified \<and>
   \<not> vr_verified ex_unverified \<and>
   fst (completePayment ex_env_unverified ex_ctx ''1700000000000125'' ''PAYID-1'' GoldCoin 10
          ex_world_pending) =
     Inl (TRPCError PAYMENT_FAILED ''Payment verification failed'') \<and>
   calls (snd (completePayment ex_env_unverified ex_ctx ''1700000000000125'' ''PAYID-1''
                 GoldCoin 10 ex_world_pending)) =
     [VerifyPayPalPayment ''PAYID-1'' 10] \<and>
   iRecordGoldCoin (db (snd (completePayment ex_env_unverified ex_ctx ''1700000000000125''
                               ''PAYID-1'' GoldCoin 10 ex_world_pending))) = [ex_pending] \<and>
   status ex_pending = 0"
proof -
  have v: "verifyPayPalPayment ex_env_unverified ''PAYID-1'' 10 = Inr ex_unverified"
    by (simp add: ex_env_unverified_def ex_env_def)
  have u: "\<not> vr_verified ex_unverified"
    by (simp add: ex_unverified_def)
  show ?thesis
    using completePayment_unverified [OF v u, of ex_ctx "''1700000000000125''" GoldCoin
        ex_world_pending] v u
    by (simp add: or_default_def ex_unverified_def ex_world_pending_def ex_world_def
        ex_pending_def)
qed

text \<open>
  Claim C1, amended. When the order found for \<^verbatim>\<open>orderNo\<close> has a status other than 0, the
  call always fails, calls no recharge caller and leaves the database alone. The error
  is \<^verbatim>\<open>BAD_REQUEST\<close> (the spec's InvalidState) when the verifier confirmed the payment and
  the lookup was not rejected by the driver (then it is the driver's error);
  verification comes first in the source, so an unconfirmed payment gives
  \<^verbatim>\<open>PAYMENT_FAILED\<close> and a verifier that throws gives its own error.
\<close>

theorem completePayment_not_pending:
  assumes "find_order pt ono (db w) = Some ord" and "status (order_common_of ord) \<noteq> 0"
  shows "fst (completePayment e c ono pid pt x w) =
           (case verifyPayPalPayment e pid x of
              Inl err \<Rightarrow> Inl err
            | Inr vr \<Rightarrow>
                if vr_verified vr then
                  (case reject_query e ono of
                     Some err \<Rightarrow> Inl err
                   | None \<Rightarrow> Inl (TRPCError BAD_REQUEST msg_order_state))
                else Inl (TRPCError PAYMENT_FAILED
                            (or_default (vr_error vr) ''Payment verification failed''))) \<and>
         calls (snd (completePayment e c ono pid pt x w)) =
           calls w @ [VerifyPayPalPayment pid x] \<and>
         db (snd (completePayment e c ono pid pt x w)) = db w"
proof (cases "verifyPayPalPayment e pid x")
  case (Inl err)
  then show ?thesis
    using try_verifier_throws [OF Inl, of c ono pt w]
    by (simp add: completePayment_fst completePayment_calls completePayment_db)
next
  case (Inr vr)
  show ?thesis
  proof (cases "vr_verified vr")
    case False
    then show ?thesis
      using try_unverified [OF Inr False, of c ono pt w] Inr
      by (simp add: completePayment_fst completePayment_calls completePayment_db)
  next
    case True
    show ?thesis
    proof (cases "reject_query e ono")
      case None
      then show ?thesis
        using try_not_pending [OF Inr True None assms, of c] Inr True
        by (simp add: completePayment_fst completePayment_calls completePayment_db)
    next
      case (Some err)
      then show ?thesis
        using try_query_rejects [OF Inr True Some, where c = c and pt = pt and w = w] Inr True
        by (simp add: completePayment_fst completePayment_calls completePayment_db)
    qed
  qed
qed

text \<open>The settled order with a confirmed payment: \<^verbatim>\<open>BAD_REQUEST\<close>, and only the verifier was called.\<close>

theorem completePayment_not_pending_witness:
  "find_order GoldCoin ''1700000000000125'' (db ex_world_settled) = Some (GoldCoinOrder ex_settled) \<and>
   status (order_common_of (GoldCoinOrder ex_settled)) \<noteq> 0 \<and>
   fst (completePayment ex_env ex_ctx ''1700000000000125'' ''PAYID-1'' GoldCoin 5
          ex_world_settled) = Inl (TRPCError BAD_REQUEST msg_order_state) \<and>
   calls (snd (completePayment ex_env ex_ctx ''1700000000000125'' ''PAYID-1'' GoldCoin 5
                 ex_world_settled)) = [VerifyPayPalPayment ''PAYID-1'' 5] \<and>
   db (snd (completePayment ex_env ex_ctx ''1700000000000125'' ''PAYID-1'' GoldCoin 5
              ex_world_settled)) = db ex_world_settled"
proof -
  have s: "status (order_common_of (GoldCoinOrder ex_settled)) \<noteq> 0"
    by (simp add: ex_settled_def order_common.truncate_def)
  show ?thesis
    using completePayment_not_pending [OF ex_find_settled s, of ex_env ex_ctx "''PAYID-1''" 5]
      ex_find_settled s
    by (simp add: ex_env_def ex_verified_def ex_world_settled_def)
qed

text \<open>
  The claim as first stated fails: for the settled order (status 1) and a verifier that
  answers \<^verbatim>\<open>verified: false\<close>, the call throws \<^verbatim>\<open>PAYMENT_FAILED\<close>, not \<^verbatim>\<open>BAD_REQUEST\<close>.
\<close>

theorem completePayment_not_pending_counterexample:
  "find_order GoldCoin ''1700000000000125'' (db ex_world_settled) = Some (GoldCoinOrder ex_settled) \<and>
   status ex_settled = 1 \<and>
   fst (completePayment ex_env_unverified ex_ctx ''1700000000000125'' ''PAYID-1'' GoldCoin 5
          ex_world_settled) = Inl (TRPCError PAYMENT_FAILED ''Payment verification failed'') \<and>
   fst (completePayment ex_env_unverified ex_ctx ''1700000000000125'' ''PAYID-1'' GoldCoin 5
          ex_world_settled) \<noteq> Inl (TRPCError BAD_REQUEST msg_order_state)"
  by (simp add: ex_find_settled completePayment_fst completePayment_try_def or_default_def
      ex_env_unverified_def ex_env_def ex_unverified_def ex_settled_def)

text \<open>
  Claim C5, amended. When \<^verbatim>\<open>orderNo\<close> matches no row of the table selected by
  \<^verbatim>\<open>productType\<close>, the call always fails, calls no recharge caller and leaves the database
  alone. The error is \<^verbatim>\<open>NOT_FOUND\<close> when the verifier confirmed the payment and the lookup
  was not rejected by the driver (then it is the driver's error); an unconfirmed payment
  gives \<^verbatim>\<open>PAYMENT_FAILED\<close> before the lookup is reached, and a verifier that throws gives
  its own error.
\<close>

theorem completePayment_unknown_order:
  assumes "find_order pt ono (db w) = None"
  shows "fst (completePayment e c ono pid pt x w) =
           (case verifyPayPalPayment e pid x of
              Inl err \<Rightarrow> Inl err
            | Inr vr \<Rightarrow>
                if vr_verified vr then
                  (case reject_query e ono of
                     Some err \<Rightarrow> Inl err
                   | None \<Rightarrow> Inl (TRPCError NOT_FOUND msg_order_not_found))
                else Inl (TRPCError PAYMENT_FAILED
                            (or_default (vr_error vr) ''Payment verification failed''))) \<and>
         calls (snd (completePayment e c ono pid pt x w)) =
           calls w @ [VerifyPayPalPayment pid x] \<and>
         db (snd (completePayment e c ono pid pt x w)) = db w"
proof (cases "verifyPayPalPayment e pid x")
  case (Inl err)
  then show ?thesis
    using try_verifier_throws [OF Inl, of c ono pt w]
    by (simp add: completePayment_fst completePayment_calls completePayment_db)
next
  case (Inr vr)
  show ?thesis
  proof (cases "vr_verified vr")
    case False
    then show ?thesis
      using try_unverified [OF Inr False, of c ono pt w] Inr
      by (simp add: completePayment_fst completePayment_calls completePayment_db)
  next
    case True
    show ?thesis
    proof (cases "reject_query e ono")
      case None
      then show ?thesis
        using try_not_found [OF Inr True None assms, of c] Inr True
        by (simp add: completePayment_fst completePayment_calls completePayment_db)
    next
      case (Some err)
      then show ?thesis
        using try_query_rejects [OF Inr True Some, where c = c and pt = pt and w = w] Inr True
        by (simp add: completePayment_fst completePayment_calls completePayment_db)
    qed
  qed
qed

theorem completePayment_unknown_order_witness:
  "find_order Translate ''1700000000000125'' (db ex_world_pending) = None \<and>
   fst (completePayment ex_env ex_ctx ''1700000000000125'' ''PAYID-1'' Translate 10
          ex_world_pending) = Inl (TRPCError NOT_FOUND msg_order_not_found) \<and>
   calls (snd (completePayment ex_env ex_ctx ''1700000000000125'' ''PAYID-1'' Translate 10
                 ex_world_pending)) = [VerifyPayPalPayment ''PAYID-1'' 10] \<and>
   db (snd (completePayment ex_env ex_ctx ''1700000000000125'' ''PAYID-1'' Translate 10
              ex_world_pending)) = db ex_world_pending"
  using completePayment_unknown_order [OF ex_find_nothing, of ex_env ex_ctx "''PAYID-1''" 10]
    ex_find_nothing
  by (simp add: ex_env_def ex_verified_def ex_world_pending_def ex_world_def)

text \<open>
  The claim as first stated fails: with no translate order in the database and a verifier
  that answers \<^verbatim>\<open>verified: false\<close>, the call throws \<^verbatim>\<open>PAYMENT_FAILED\<close>, not \<^verbatim>\<open>NOT_FOUND\<close>.
\<close>

theorem completePayment_unknown_order_counterexample:
  "find_order Translate ''1700000000000125'' (db ex_world_pending) = None \<and>
   fst (completePayment ex_env_unverified ex_ctx ''1700000000000125'' ''PAYID-1'' Translate 10
          ex_world_pending) = Inl (TRPCError PAYMENT_FAILED ''Payment verification failed'') \<and>
   fst (completePayment ex_env_unverified ex_ctx ''1700000000000125'' ''PAYID-1'' Translate 10
          ex_world_pending) \<noteq> Inl (TRPCError NOT_FOUND msg_order_not_found)"
  by (simp add: ex_find_nothing completePayment_fst completePayment_try_def or_default_def
      ex_env_unverified_def ex_env_def ex_unverified_def)

section \<open>completePayment: the crediting step\<close>

lemma find_Some_row: "List.find P rows = Some r \<Longrightarrow> r \<in> set rows \<and> P r"
  by (auto simp: find_Some_iff)

text \<open>
  Claim C2. The call reaches step 3 when the verifier confirmed the payment, the lookup
  was not rejected, and the row found for \<^verbatim>\<open>orderNo\<close> in the table selected by
  \<^verbatim>\<open>productType\<close> is pending. It then calls, after the verifier, exactly one recharge
  caller, the one of the product type, with \<^verbatim>\<open>orderNo\<close>, the payload columns of that stored
  row (\<^verbatim>\<open>vipLevel\<close> and \<^verbatim>\<open>month\<close>, \<^verbatim>\<open>goldCoin\<close>, or \<^verbatim>\<open>characterNum\<close>), the amount
  of the verification result, not \<^verbatim>\<open>expectedAmount\<close>, and \<^verbatim>\<open>paypalOrderId\<close>. The database
  afterwards is the one that caller returned.
\<close>

theorem completePayment_credits:
  assumes "verifyPayPalPayment e pid x = Inr vr" and "vr_verified vr"
    and "reject_query e ono = None"
  shows
    "case pt of
       Vip \<Rightarrow>
         (\<forall>r. List.find (\<lambda>r. orderNo r = ono) (iRecordVip (db w)) = Some r \<and> status r = 0 \<longrightarrow>
            r \<in> set (iRecordVip (db w)) \<and> orderNo r = ono \<and>
            calls (snd (completePayment e c ono pid pt x w)) =
              calls w @
                [VerifyPayPalPayment pid x,
                 RechargeVip ono (vipLevel r) (month r) (vr_amount vr) pid] \<and>
            db (snd (completePayment e c ono pid pt x w)) =
              snd (rechargeVip c ono (vipLevel r) (month r) (vr_amount vr) pid (db w)))
     | Svip \<Rightarrow>
         (\<forall>r. List.find (\<lambda>r. orderNo r = ono) (iRecordVip (db w)) = Some r \<and> status r = 0 \<longrightarrow>
            r \<in> set (iRecordVip (db w)) \<and> orderNo r = ono \<and>
            calls (snd (completePayment e c ono pid pt x w)) =
              calls w @
                [VerifyPayPalPayment pid x,
                 RechargeVip ono (vipLevel r) (month r) (vr_amount vr) pid] \<and>
            db (snd (completePayment e c ono pid pt x w)) =
              snd (rechargeVip c ono (vipLevel r) (month r) (vr_amount vr) pid (db w)))
     | GoldCoin \<Rightarrow>
         (\<forall>r. List.find (\<lambda>r. orderNo r = ono) (iRecordGoldCoin (db w)) = Some r \<and>
              status r = 0 \<longrightarrow>
            r \<in> set (iRecordGoldCoin (db w)) \<and> orderNo r = ono \<and>
            calls (snd (completePayment e c ono pid pt x w)) =
              calls w @
                [VerifyPayPalPayment pid x,
                 RechargeGoldCoin ono (goldCoin r) (vr_amount vr) pid] \<and>
            db (snd (completePayment e c ono pid pt x w)) =
              snd (rechargeGoldCoin c ono (goldCoin r) (vr_amount vr) pid (db w)))
     | Translate \<Rightarrow>
         (\<forall>r. List.find (\<lambda>r. orderNo r = ono) (iRecordTranslate (db w)) = Some r \<and>
              status r = 0 \<longrightarrow>
            r \<in> set (iRecordTranslate (db w)) \<and> orderNo r = ono \<and>
            calls (snd (completePayment e c ono pid pt x w)) =
              calls w @
                [VerifyPayPalPayment pid x,
                 RechargeTranslate ono (characterNum r) (vr_amount vr) pid] \<and>
            db (snd (completePayment e c ono pid pt x w)) =
              snd (rechargeTranslate c ono (characterNum r) (vr_amount vr) pid (db w)))"
proof (cases pt)
  case Vip
  show ?thesis
    unfolding Vip productType.case
  proof (intro allI impI, elim conjE)
    fix r
    assume f: "List.find (\<lambda>r. orderNo r = ono) (iRecordVip (db w)) = Some r" and s: "status r = 0"
    have n: "reject_query e ono = None"
      using assms(3) Vip by simp
    note h = complete_vip [where pt = Vip, OF disjI1 [OF refl] assms(1,2) n f s, of c]
    from find_Some_row [OF f] have m: "r \<in> set (iRecordVip (db w))" and o: "orderNo r = ono"
      by blast+
    from h have k: "calls (snd (completePayment e c ono pid Vip x w)) =
              calls w @ [VerifyPayPalPayment pid x, RechargeVip ono (vipLevel r) (month r) (vr_amount vr) pid]"
      by blast
    from h have d: "db (snd (completePayment e c ono pid Vip x w)) =
              snd (rechargeVip c ono (vipLevel r) (month r) (vr_amount vr) pid (db w))"
      by blast
    show "r \<in> set (iRecordVip (db w)) \<and> orderNo r = ono \<and>
            calls (snd (completePayment e c ono pid Vip x w)) =
              calls w @ [VerifyPayPalPayment pid x, RechargeVip ono (vipLevel r) (month r) (vr_amount vr) pid] \<and>
            db (snd (completePayment e c ono pid Vip x w)) =
              snd (rechargeVip c ono (vipLevel r) (month r) (vr_amount vr) pid (db w))"
      by (intro conjI m o k d)
  qed
next
  case Svip
  show ?thesis
    unfolding Svip productType.case
  proof (intro allI impI, elim conjE)
    fix r
    assume f: "List.find (\<lambda>r. orderNo r = ono) (iRecordVip (db w)) = Some r" and s: "status r = 0"
    have n: "reject_query e ono = None"
      using assms(3) Svip by simp
    note h = complete_vip [where pt = Svip, OF disjI2 [OF refl] assms(1,2) n f s, of c]
    from find_Some_row [OF f] have m: "r \<in> set (iRecordVip (db w))" and o: "orderNo r = ono"
      by blast+
    from h have k: "calls (snd (completePayment e c ono pid Svip x w)) =
              calls w @ [VerifyPayPalPayment pid x, RechargeVip ono (vipLevel r) (month r) (vr_amount vr) pid]"
      by blast
    from h have d: "db (snd (completePayment e c ono pid Svip x w)) =
              snd (rechargeVip c ono (vipLevel r) (month r) (vr_amount vr) pid (db w))"
      by blast
    show "r \<in> set (iRecordVip (db w)) \<and> orderNo r = ono \<and>
            calls (snd (completePayment e c ono pid Svip x w)) =
              calls w @ [VerifyPayPalPayment pid x, RechargeVip ono (vipLevel r) (month r) (vr_amount vr) pid] \<and>
            db (snd (completePayment e c ono pid Svip x w)) =
              snd (rechargeVip c ono (vipLevel r) (month r) (vr_amount vr) pid (db w))"
      by (intro conjI m o k d)
  qed
next
  case GoldCoin
  show ?thesis
    unfolding GoldCoin productType.case
  proof (intro allI impI, elim conjE)
    fix r
    assume f: "List.find (\<lambda>r. orderNo r = ono) (iRecordGoldCoin (db w)) = Some r" and s: "status r = 0"
    have n: "reject_query e ono = None"
      using assms(3) GoldCoin by simp
    note h = complete_goldCoin [OF assms(1,2) n f s, of c]
    from find_Some_row [OF f] have m: "r \<in> set (iRecordGoldCoin (db w))" and o: "orderNo r = ono"
      by blast+
    from h have k: "calls (snd (completePayment e c ono pid GoldCoin x w)) =
              calls w @ [VerifyPayPalPayment pid x, RechargeGoldCoin ono (goldCoin r) (vr_amount vr) pid]"
      by blast
    from h have d: "db (snd (completePayment e c ono pid GoldCoin x w)) =
              snd (rechargeGoldCoin c ono (goldCoin r) (vr_amount vr) pid (db w))"
      by blast
    show "r \<in> set (iRecordGoldCoin (db w)) \<and> orderNo r = ono \<and>
            calls (snd (completePayment e c ono pid GoldCoin x w)) =
              calls w @ [VerifyPayPalPayment pid x, RechargeGoldCoin ono (goldCoin r) (vr_amount vr) pid] \<and>
            db (snd (completePayment e c ono pid GoldCoin x w)) =
              snd (rechargeGoldCoin c ono (goldCoin r) (vr_amount vr) pid (db w))"
      by (intro conjI m o k d)
  qed
next
  case Translate
  show ?thesis
    unfolding Translate productType.case
  proof (intro allI impI, elim conjE)
    fix r
    assume f: "List.find (\<lambda>r. orderNo r = ono) (iRecordTranslate (db w)) = Some r" and s: "status r = 0"
    have n: "reject_query e ono = None"
      using assms(3) Translate by simp
    note h = complete_translate [OF assms(1,2) n f s, of c]
    from find_Some_row [OF f] have m: "r \<in> set (iRecordTranslate (db w))" and o: "orderNo r = ono"
      by blast+
    from h have k: "calls (snd (completePayment e c ono pid Translate x w)) =
              calls w @ [VerifyPayPalPayment pid x, RechargeTranslate ono (characterNum r) (vr_amount vr) pid]"
      by blast
    from h have d: "db (snd (completePayment e c ono pid Translate x w)) =
              snd (rechargeTranslate c ono (characterNum r) (vr_amount vr) pid (db w))"
      by blast
    show "r \<in> set (iRecordTranslate (db w)) \<and> orderNo r = ono \<and>
            calls (snd (completePayment e c ono pid Translate x w)) =
              calls w @ [VerifyPayPalPayment pid x, RechargeTranslate ono (characterNum r) (vr_amount vr) pid] \<and>
            db (snd (completePayment e c ono pid Translate x w)) =
              snd (rechargeTranslate c ono (characterNum r) (vr_amount vr) pid (db w))"
      by (intro conjI m o k d)
  qed
qed

lemma ex_find_rows:
  "List.find (\<lambda>r. orderNo r = ''1700000000001007'') (iRecordVip (db ex_world_orders)) =
     Some ex_vip_order"
  "List.find (\<lambda>r. orderNo r = ''1700000000000125'') (iRecordGoldCoin (db ex_world_pending)) =
     Some ex_pending"
  "List.find (\<lambda>r. orderNo r = ''1700000000002050'') (iRecordTranslate (db ex_world_orders)) =
     Some ex_translate_order"
  "status ex_vip_order = 0" "status ex_pending = 0" "status ex_translate_order = 0"
  by (simp_all add: ex_world_orders_def ex_world_pending_def ex_world_def ex_vip_order_def
      ex_pending_def ex_translate_order_def)

lemma ex_verify: "verifyPayPalPayment ex_env pid x = Inr ex_verified"
  by (simp add: ex_env_def)

lemma ex_is_verified: "vr_verified ex_verified"
  by (simp add: ex_verified_def)

text \<open>
  The scenario of the spec: a gold-coin order for 9.99 with 500 coins is created, the
  verifier confirms 9.99 (the caller declared 10), and the recharge caller is called once
  with the order number, 500, 9.99 and the confirmation id. Likewise a VIP order, under
  \<^verbatim>\<open>'vip'\<close> and under \<^verbatim>\<open>'svip'\<close>, is credited with its stored level 2 and 3 months, and a
  translate order with its stored 10000 characters.
\<close>

theorem completePayment_credits_witness:
  "initializePayment ex_env ex_ctx ''9.99'' GoldCoin ex_details ex_world =
     (Inr (True, ''1700000000000125''), ex_world_pending) \<and>
   verifyPayPalPayment ex_env ''PAYID-1'' 10 = Inr ex_verified \<and>
   vr_verified ex_verified \<and>
   reject_query ex_env ''1700000000000125'' = None \<and>
   List.find (\<lambda>r. orderNo r = ''1700000000000125'') (iRecordGoldCoin (db ex_world_pending)) =
     Some ex_pending \<and>
   status ex_pending = 0 \<and>
   calls (snd (completePayment ex_env ex_ctx ''1700000000000125'' ''PAYID-1'' GoldCoin 10
                 ex_world_pending)) =
     [VerifyPayPalPayment ''PAYID-1'' 10,
      RechargeGoldCoin ''1700000000000125'' (Some 500) (Some (999 / 100)) ''PAYID-1''] \<and>
   calls (snd (completePayment ex_env ex_ctx ''1700000000001007'' ''PAYID-2'' Vip 20
                 ex_world_orders)) =
     [VerifyPayPalPayment ''PAYID-2'' 20,
      RechargeVip ''1700000000001007'' (Some 2) (Some 3) (Some (999 / 100)) ''PAYID-2''] \<and>
   calls (snd (completePayment ex_env ex_ctx ''1700000000001007'' ''PAYID-2'' Svip 20
                 ex_world_orders)) =
     [VerifyPayPalPayment ''PAYID-2'' 20,
      RechargeVip ''1700000000001007'' (Some 2) (Some 3) (Some (999 / 100)) ''PAYID-2''] \<and>
   calls (snd (completePayment ex_env ex_ctx ''1700000000002050'' ''PAYID-3'' Translate 5
                 ex_world_orders)) =
     [VerifyPayPalPayment ''PAYID-3'' 5,
      RechargeTranslate ''1700000000002050'' (Some 10000) (Some (999 / 100)) ''PAYID-3'']"
proof -
  have g: "calls (snd (completePayment ex_env ex_ctx ''1700000000000125'' ''PAYID-1'' GoldCoin 10
                 ex_world_pending)) =
     [VerifyPayPalPayment ''PAYID-1'' 10,
      RechargeGoldCoin ''1700000000000125'' (Some 500) (Some (999 / 100)) ''PAYID-1'']"
    using completePayment_credits [where e = ex_env and c = ex_ctx and pid = "''PAYID-1''" and x = 10
        and pt = GoldCoin and ono = "''1700000000000125''" and w = ex_world_pending,
        OF ex_verify ex_is_verified ex_no_reject, unfolded productType.case, rule_format,
        OF conjI [OF ex_find_rows(2) ex_find_rows(5)], THEN conjunct2, THEN conjunct2,
        THEN conjunct1]
    by (simp add: ex_world_pending_def ex_world_def ex_pending_def ex_verified_def)
  have v: "calls (snd (completePayment ex_env ex_ctx ''1700000000001007'' ''PAYID-2'' Vip 20
                 ex_world_orders)) =
     [VerifyPayPalPayment ''PAYID-2'' 20,
      RechargeVip ''1700000000001007'' (Some 2) (Some 3) (Some (999 / 100)) ''PAYID-2'']"
    using completePayment_credits [where e = ex_env and c = ex_ctx and pid = "''PAYID-2''" and x = 20
        and pt = Vip and ono = "''1700000000001007''" and w = ex_world_orders,
        OF ex_verify ex_is_verified ex_no_reject, unfolded productType.case, rule_format,
        OF conjI [OF ex_find_rows(1) ex_find_rows(4)], THEN conjunct2, THEN conjunct2,
        THEN conjunct1]
    by (simp add: ex_world_orders_def ex_vip_order_def ex_verified_def)
  have s: "calls (snd (completePayment ex_env ex_ctx ''1700000000001007'' ''PAYID-2'' Svip 20
                 ex_world_orders)) =
     [VerifyPayPalPayment ''PAYID-2'' 20,
      RechargeVip ''1700000000001007'' (Some 2) (Some 3) (Some (999 / 100)) ''PAYID-2'']"
    using completePayment_credits [where e = ex_env and c = ex_ctx and pid = "''PAYID-2''" and x = 20
        and pt = Svip and ono = "''1700000000001007''" and w = ex_world_orders,
        OF ex_verify ex_is_verified ex_no_reject, unfolded productType.case, rule_format,
        OF conjI [OF ex_find_rows(1) ex_find_rows(4)], THEN conjunct2, THEN conjunct2,
        THEN conjunct1]
    by (simp add: ex_world_orders_def ex_vip_order_def ex_verified_def)
  have t: "calls (snd (completePayment ex_env ex_ctx ''1700000000002050'' ''PAYID-3'' Translate 5
                 ex_world_orders)) =
     [VerifyPayPalPayment ''PAYID-3'' 5,
      RechargeTranslate ''1700000000002050'' (Some 10000) (Some (999 / 100)) ''PAYID-3'']"
    using completePayment_credits [where e = ex_env and c = ex_ctx and pid = "''PAYID-3''" and x = 5
        and pt = Translate and ono = "''1700000000002050''" and w = ex_world_orders,
        OF ex_verify ex_is_verified ex_no_reject, unfolded productType.case, rule_format,
        OF conjI [OF ex_find_rows(3) ex_find_rows(6)], THEN conjunct2, THEN conjunct2,
        THEN conjunct1]
    by (simp add: ex_world_orders_def ex_translate_order_def ex_verified_def)
  show ?thesis
    by (intro conjI ex_initialize ex_verify ex_is_verified ex_no_reject ex_find_rows g v s t)
qed

section \<open>completePayment: the catch block\<close>

lemma is_recharge_dispatch:
  "is_recharge
     (case pt of
        Vip \<Rightarrow> RechargeVip ono (order_vipLevel ord) (order_month ord) amt pid
      | Svip \<Rightarrow> RechargeVip ono (order_vipLevel ord) (order_month ord) amt pid
      | GoldCoin \<Rightarrow> RechargeGoldCoin ono (order_goldCoin ord) amt pid
      | Translate \<Rightarrow> RechargeTranslate ono (order_characterNum ord) amt pid)"
  by (cases pt) simp_all

lemma completePayment_try_console:
  "console (snd (completePayment_try e c ono pid pt x w)) = console w"
proof (cases "verifyPayPalPayment e pid x")
  case (Inl err)
  then show ?thesis by (simp add: try_verifier_throws)
next
  case (Inr vr)
  show ?thesis
  proof (cases "vr_verified vr")
    case False
    then show ?thesis using Inr by (simp add: try_unverified)
  next
    case True
    show ?thesis
    proof (cases "reject_query e ono")
      case (Some err)
      then show ?thesis using Inr True by (simp add: try_query_rejects)
    next
      case no_reject: None
      show ?thesis
      proof (cases "find_order pt ono (db w)")
        case None
        then show ?thesis using Inr True no_reject by (simp add: try_not_found)
      next
        case (Some ord)
        show ?thesis
        proof (cases "status (order_common_of ord) = 0")
          case False
          then show ?thesis using Inr True no_reject Some by (simp add: try_not_pending)
        next
          case pending: True
          show ?thesis
            using try_recharge [OF Inr True no_reject Some pending, of c]
            by (simp add: Let_def recharge_console)
        qed
      qed
    qed
  qed
qed

lemma completePayment_try_calls:
  "calls (snd (completePayment_try e c ono pid pt x w)) = calls w @ [VerifyPayPalPayment pid x] \<or>
   (\<exists>k. is_recharge k \<and>
        calls (snd (completePayment_try e c ono pid pt x w)) =
          calls w @ [VerifyPayPalPayment pid x, k])"
proof (cases "verifyPayPalPayment e pid x")
  case (Inl err)
  then show ?thesis by (simp add: try_verifier_throws)
next
  case (Inr vr)
  show ?thesis
  proof (cases "vr_verified vr")
    case False
    then show ?thesis using Inr by (simp add: try_unverified)
  next
    case True
    show ?thesis
    proof (cases "reject_query e ono")
      case (Some err)
      then show ?thesis using Inr True by (simp add: try_query_rejects)
    next
      case no_reject: None
      show ?thesis
      proof (cases "find_order pt ono (db w)")
        case None
        then show ?thesis using Inr True no_reject by (simp add: try_not_found)
      next
        case (Some ord)
        show ?thesis
        proof (cases "status (order_common_of ord) = 0")
          case False
          then show ?thesis using Inr True no_reject Some by (simp add: try_not_pending)
        next
          case pending: True
          have "calls (snd (completePayment_try e c ono pid pt x w)) =
                  calls w @
                    [VerifyPayPalPayment pid x,
                     case pt of
                       Vip \<Rightarrow>
                         RechargeVip ono (order_vipLevel ord) (order_month ord) (vr_amount vr) pid
                     | Svip \<Rightarrow>
                         RechargeVip ono (order_vipLevel ord) (order_month ord) (vr_amount vr) pid
                     | GoldCoin \<Rightarrow> RechargeGoldCoin ono (order_goldCoin ord) (vr_amount vr) pid
                     | Translate \<Rightarrow>
                         RechargeTranslate ono (order_characterNum ord) (vr_amount vr) pid]"
            using try_recharge [OF Inr True no_reject Some pending, of c]
            by (simp add: Let_def recharge_calls)
          then show ?thesis using is_recharge_dispatch by blast
        qed
      qed
    qed
  qed
qed

lemma completePayment_logged:
  "fst (completePayment e c ono pid pt x w) = Inl err \<Longrightarrow>
   console (snd (completePayment e c ono pid pt x w)) = console w @ [(log_complete_failed, err)]"
proof -
  assume a: "fst (completePayment e c ono pid pt x w) = Inl err"
  obtain r w' where t: "completePayment_try e c ono pid pt x w = (r, w')"
    by (cases "completePayment_try e c ono pid pt x w")
  from a t have r: "r = Inl err" by (simp add: completePayment_fst)
  have "console w' = console w"
    using completePayment_try_console [of e c ono pid pt x w] t by simp
  then show ?thesis
    using t r by (simp add: completePayment_def)
qed

text \<open>
  Claim C7. The handler of \<^verbatim>\<open>completePayment\<close> hands every error thrown inside its \<^verbatim>\<open>try\<close>
  block to its caller as the same value: the error the verifier threw, the error with
  which the driver rejected the order lookup, and the error the recharge caller of the
  product type threw on the arguments it was given. Whatever error the handler throws,
  its own \<^verbatim>\<open>TRPCError\<close>s included, it has written that error to the console once, with
  the label of the source. Nothing is tried again: the verifier is called once and at
  most one recharge caller once. What the framework around the handler does with the
  thrown value is not part of the router.
\<close>

theorem completePayment_rethrows:
  "(\<forall>err. verifyPayPalPayment e pid x = Inl err \<longrightarrow>
      fst (completePayment e c ono pid pt x w) = Inl err) \<and>
   (\<forall>vr err. verifyPayPalPayment e pid x = Inr vr \<and> vr_verified vr \<and>
        reject_query e ono = Some err \<longrightarrow>
      fst (completePayment e c ono pid pt x w) = Inl err) \<and>
   (\<forall>vr. verifyPayPalPayment e pid x = Inr vr \<and> vr_verified vr \<and>
        reject_query e ono = None \<longrightarrow>
      (case pt of
         Vip \<Rightarrow>
           (\<forall>r err. List.find (\<lambda>r. orderNo r = ono) (iRecordVip (db w)) = Some r \<and>
                status r = 0 \<and>
                fst (rechargeVip c ono (vipLevel r) (month r) (vr_amount vr) pid (db w)) =
                  Some err \<longrightarrow>
              fst (completePayment e c ono pid pt x w) = Inl err)
       | Svip \<Rightarrow>
           (\<forall>r err. List.find (\<lambda>r. orderNo r = ono) (iRecordVip (db w)) = Some r \<and>
                status r = 0 \<and>
                fst (rechargeVip c ono (vipLevel r) (month r) (vr_amount vr) pid (db w)) =
                  Some err \<longrightarrow>
              fst (completePayment e c ono pid pt x w) = Inl err)
       | GoldCoin \<Rightarrow>
           (\<forall>r err. List.find (\<lambda>r. orderNo r = ono) (iRecordGoldCoin (db w)) = Some r \<and>
                status r = 0 \<and>
                fst (rechargeGoldCoin c ono (goldCoin r) (vr_amount vr) pid (db w)) =
                  Some err \<longrightarrow>
              fst (completePayment e c ono pid pt x w) = Inl err)
       | Translate \<Rightarrow>
           (\<forall>r err. List.find (\<lambda>r. orderNo r = ono) (iRecordTranslate (db w)) = Some r \<and>
                status r = 0 \<and>
                fst (rechargeTranslate c ono (characterNum r) (vr_amount vr) pid (db w)) =
                  Some err \<longrightarrow>
              fst (completePayment e c ono pid pt x w) = Inl err))) \<and>
   (\<forall>err. fst (completePayment e c ono pid pt x w) = Inl err \<longrightarrow>
      console (snd (completePayment e c ono pid pt x w)) =
        console w @ [(log_complete_failed, err)]) \<and>
   (calls (snd (completePayment e c ono pid pt x w)) = calls w @ [VerifyPayPalPayment pid x] \<or>
    (\<exists>k. is_recharge k \<and>
         calls (snd (completePayment e c ono pid pt x w)) =
           calls w @ [VerifyPayPalPayment pid x, k]))"
proof -
  have a: "\<forall>err. verifyPayPalPayment e pid x = Inl err \<longrightarrow>
             fst (completePayment e c ono pid pt x w) = Inl err"
    by (simp add: completePayment_fst try_verifier_throws)
  have b: "\<forall>vr err. verifyPayPalPayment e pid x = Inr vr \<and> vr_verified vr \<and>
               reject_query e ono = Some err \<longrightarrow>
             fst (completePayment e c ono pid pt x w) = Inl err"
    by (simp add: completePayment_fst try_query_rejects)
  have c: "\<forall>vr. verifyPayPalPayment e pid x = Inr vr \<and> vr_verified vr \<and>
        reject_query e ono = None \<longrightarrow>
      (case pt of
         Vip \<Rightarrow>
           (\<forall>r err. List.find (\<lambda>r. orderNo r = ono) (iRecordVip (db w)) = Some r \<and>
                status r = 0 \<and>
                fst (rechargeVip c ono (vipLevel r) (month r) (vr_amount vr) pid (db w)) =
                  Some err \<longrightarrow>
              fst (completePayment e c ono pid pt x w) = Inl err)
       | Svip \<Rightarrow>
           (\<forall>r err. List.find (\<lambda>r. orderNo r = ono) (iRecordVip (db w)) = Some r \<and>
                status r = 0 \<and>
                fst (rechargeVip c ono (vipLevel r) (month r) (vr_amount vr) pid (db w)) =
                  Some err \<longrightarrow>
              fst (completePayment e c ono pid pt x w) = Inl err)
       | GoldCoin \<Rightarrow>
           (\<forall>r err. List.find (\<lambda>r. orderNo r = ono) (iRecordGoldCoin (db w)) = Some r \<and>
                status r = 0 \<and>
                fst (rechargeGoldCoin c ono (goldCoin r) (vr_amount vr) pid (db w)) =
                  Some err \<longrightarrow>
              fst (completePayment e c ono pid pt x w) = Inl err)
       | Translate \<Rightarrow>
           (\<forall>r err. List.find (\<lambda>r. orderNo r = ono) (iRecordTranslate (db w)) = Some r \<and>
                status r = 0 \<and>
                fst (rechargeTranslate c ono (characterNum r) (vr_amount vr) pid (db w)) =
                  Some err \<longrightarrow>
              fst (completePayment e c ono pid pt x w) = Inl err))"
  proof (intro allI impI, elim conjE)
    fix vr
    assume v: "verifyPayPalPayment e pid x = Inr vr" and u: "vr_verified vr"
      and n: "reject_query e ono = None"
    show "case pt of
         Vip \<Rightarrow>
           (\<forall>r err. List.find (\<lambda>r. orderNo r = ono) (iRecordVip (db w)) = Some r \<and>
                status r = 0 \<and>
                fst (rechargeVip c ono (vipLevel r) (month r) (vr_amount vr) pid (db w)) =
                  Some err \<longrightarrow>
              fst (completePayment e c ono pid pt x w) = Inl err)
       | Svip \<Rightarrow>
           (\<forall>r err. List.find (\<lambda>r. orderNo r = ono) (iRecordVip (db w)) = Some r \<and>
                status r = 0 \<and>
                fst (rechargeVip c ono (vipLevel r) (month r) (vr_amount vr) pid (db w)) =
                  Some err \<longrightarrow>
              fst (completePayment e c ono pid pt x w) = Inl err)
       | GoldCoin \<Rightarrow>
           (\<forall>r err. List.find (\<lambda>r. orderNo r = ono) (iRecordGoldCoin (db w)) = Some r \<and>
                status r = 0 \<and>
                fst (rechargeGoldCoin c ono (goldCoin r) (vr_amount vr) pid (db w)) =
                  Some err \<longrightarrow>
              fst (completePayment e c ono pid pt x w) = Inl err)
       | Translate \<Rightarrow>
           (\<forall>r err. List.find (\<lambda>r. orderNo r = ono) (iRecordTranslate (db w)) = Some r \<and>
                status r = 0 \<and>
                fst (rechargeTranslate c ono (characterNum r) (vr_amount vr) pid (db w)) =
                  Some err \<longrightarrow>
              fst (completePayment e c ono pid pt x w) = Inl err)"
    proof (cases pt)
      case Vip
      show ?thesis
        unfolding Vip productType.case
      proof (intro allI impI, elim conjE)
        fix r err
        assume f: "List.find (\<lambda>r. orderNo r = ono) (iRecordVip (db w)) = Some r"
          and s: "status r = 0"
          and t: "fst (rechargeVip c ono (vipLevel r) (month r) (vr_amount vr) pid (db w)) =
                    Some err"
        from n Vip have n': "reject_query e ono = None" by simp
        from complete_vip [where pt = Vip, OF disjI1 [OF refl] v u n' f s, of c, THEN conjunct1]
        show "fst (completePayment e c ono pid Vip x w) = Inl err"
          by (simp add: t)
      qed
    next
      case Svip
      show ?thesis
        unfolding Svip productType.case
      proof (intro allI impI, elim conjE)
        fix r err
        assume f: "List.find (\<lambda>r. orderNo r = ono) (iRecordVip (db w)) = Some r"
          and s: "status r = 0"
          and t: "fst (rechargeVip c ono (vipLevel r) (month r) (vr_amount vr) pid (db w)) =
                    Some err"
        from n Svip have n': "reject_query e ono = None" by simp
        from complete_vip [where pt = Svip, OF disjI2 [OF refl] v u n' f s, of c, THEN conjunct1]
        show "fst (completePayment e c ono pid Svip x w) = Inl err"
          by (simp add: t)
      qed
    next
      case GoldCoin
      show ?thesis
        unfolding GoldCoin productType.case
      proof (intro allI impI, elim conjE)
        fix r err
        assume f: "List.find (\<lambda>r. orderNo r = ono) (iRecordGoldCoin (db w)) = Some r"
          and s: "status r = 0"
          and t: "fst (rechargeGoldCoin c ono (goldCoin r) (vr_amount vr) pid (db w)) = Some err"
        from n GoldCoin have n': "reject_query e ono = None" by simp
        from complete_goldCoin [OF v u n' f s, of c, THEN conjunct1]
        show "fst (completePayment e c ono pid GoldCoin x w) = Inl err"
          by (simp add: t)
      qed
    next
      case Translate
      show ?thesis
        unfolding Translate productType.case
      proof (intro allI impI, elim conjE)
        fix r err
        assume f: "List.find (\<lambda>r. orderNo r = ono) (iRecordTranslate (db w)) = Some r"
          and s: "status r = 0"
          and t: "fst (rechargeTranslate c ono (characterNum r) (vr_amount vr) pid (db w)) =
                    Some err"
        from n Translate have n': "reject_query e ono = None" by simp
        from complete_translate [OF v u n' f s, of c, THEN conjunct1]
        show "fst (completePayment e c ono pid Translate x w) = Inl err"
          by (simp add: t)
      qed
    qed
  qed
  have d: "\<forall>err. fst (completePayment e c ono pid pt x w) = Inl err \<longrightarrow>
             console (snd (completePayment e c ono pid pt x w)) =
               console w @ [(log_complete_failed, err)]"
    by (intro allI impI) (rule completePayment_logged)
  have f: "calls (snd (completePayment e c ono pid pt x w)) =
             calls w @ [VerifyPayPalPayment pid x] \<or>
           (\<exists>k. is_recharge k \<and>
                calls (snd (completePayment e c ono pid pt x w)) =
                  calls w @ [VerifyPayPalPayment pid x, k])"
    using completePayment_try_calls [of e c ono pid pt x w]
    by (simp only: completePayment_calls)
  show ?thesis
    by (intro conjI a b c d f)
qed

lemma ex_throwing: "verifyPayPalPayment ex_env_throwing pid x = Inl (Thrown ''ECONNRESET'')"
  by (simp add: ex_env_throwing_def)

lemma ex_offline:
  "verifyPayPalPayment ex_env_offline pid x = Inr ex_verified"
  "reject_query ex_env_offline ono = Some (Thrown ''connection terminated'')"
  by (simp_all add: ex_env_offline_def ex_env_def)

lemma ex_failing:
  "fst (rechargeVip ex_ctx_failing ono lvl m amt pid d) = Some (Thrown ''vip recharge unavailable'')"
  "fst (rechargeGoldCoin ex_ctx_failing ono g amt pid d) = Some (Thrown ''recharge unavailable'')"
  "fst (rechargeTranslate ex_ctx_failing ono ch amt pid d) =
     Some (TRPCError INTERNAL_SERVER_ERROR ''translate recharge'')"
  by (simp_all add: ex_ctx_failing_def)

lemma ex_consoles: "console ex_world_pending = []" "console ex_world_orders = []"
  by (simp_all add: ex_world_pending_def ex_world_def ex_world_orders_def)

text \<open>
  A verifier that throws, a driver that rejects the lookup, and a recharge caller that
  throws for each product type: each time the caller of \<^verbatim>\<open>completePayment\<close> gets that very
  error, and it is on the console.
\<close>

theorem completePayment_rethrows_witness:
  "verifyPayPalPayment ex_env_throwing ''PAYID-1'' 10 = Inl (Thrown ''ECONNRESET'') \<and>
   fst (completePayment ex_env_throwing ex_ctx ''1700000000000125'' ''PAYID-1'' GoldCoin 10
          ex_world_pending) = Inl (Thrown ''ECONNRESET'') \<and>
   console (snd (completePayment ex_env_throwing ex_ctx ''1700000000000125'' ''PAYID-1''
                   GoldCoin 10 ex_world_pending)) =
     [(log_complete_failed, Thrown ''ECONNRESET'')] \<and>
   reject_query ex_env_offline ''1700000000000125'' =
     Some (Thrown ''connection terminated'') \<and>
   fst (completePayment ex_env_offline ex_ctx ''1700000000000125'' ''PAYID-1'' GoldCoin 10
          ex_world_pending) = Inl (Thrown ''connection terminated'') \<and>
   console (snd (completePayment ex_env_offline ex_ctx ''1700000000000125'' ''PAYID-1''
                   GoldCoin 10 ex_world_pending)) =
     [(log_complete_failed, Thrown ''connection terminated'')] \<and>
   fst (completePayment ex_env ex_ctx_failing ''1700000000001007'' ''PAYID-2'' Vip 20
          ex_world_orders) = Inl (Thrown ''vip recharge unavailable'') \<and>
   fst (completePayment ex_env ex_ctx_failing ''1700000000001007'' ''PAYID-2'' Svip 20
          ex_world_orders) = Inl (Thrown ''vip recharge unavailable'') \<and>
   fst (completePayment ex_env ex_ctx_failing ''1700000000000125'' ''PAYID-1'' GoldCoin 10
          ex_world_pending) = Inl (Thrown ''recharge unavailable'') \<and>
   console (snd (completePayment ex_env ex_ctx_failing ''1700000000000125'' ''PAYID-1''
                   GoldCoin 10 ex_world_pending)) =
     [(log_complete_failed, Thrown ''recharge unavailable'')] \<and>
   fst (completePayment ex_env ex_ctx_failing ''1700000000002050'' ''PAYID-3'' Translate 5
          ex_world_orders) = Inl (TRPCError INTERNAL_SERVER_ERROR ''translate recharge'')"
proof -
  note verifier = completePayment_rethrows [THEN conjunct1, rule_format]
  note lookup = completePayment_rethrows [THEN conjunct2, THEN conjunct1, rule_format]
  note logged =
    completePayment_rethrows [THEN conjunct2, THEN conjunct2, THEN conjunct2, THEN conjunct1,
      rule_format]
  note ok = conjI [OF ex_verify conjI [OF ex_is_verified ex_no_reject]]
  have a: "fst (completePayment ex_env_throwing ex_ctx ''1700000000000125'' ''PAYID-1'' GoldCoin
                  10 ex_world_pending) = Inl (Thrown ''ECONNRESET'')"
    by (rule verifier [OF ex_throwing])
  have b: "fst (completePayment ex_env_offline ex_ctx ''1700000000000125'' ''PAYID-1'' GoldCoin
                  10 ex_world_pending) = Inl (Thrown ''connection terminated'')"
    by (rule lookup [OF conjI [OF ex_offline(1) conjI [OF ex_is_verified ex_offline(2)]]])
  have v: "fst (completePayment ex_env ex_ctx_failing ''1700000000001007'' ''PAYID-2'' Vip 20
                  ex_world_orders) = Inl (Thrown ''vip recharge unavailable'')"
    by (rule completePayment_rethrows [where pt = Vip, THEN conjunct2, THEN conjunct2,
          THEN conjunct1, rule_format, OF ok, unfolded productType.case, rule_format,
          OF conjI [OF ex_find_rows(1) conjI [OF ex_find_rows(4) ex_failing(1)]]])
  have s: "fst (completePayment ex_env ex_ctx_failing ''1700000000001007'' ''PAYID-2'' Svip 20
                  ex_world_orders) = Inl (Thrown ''vip recharge unavailable'')"
    by (rule completePayment_rethrows [where pt = Svip, THEN conjunct2, THEN conjunct2,
          THEN conjunct1, rule_format, OF ok, unfolded productType.case, rule_format,
          OF conjI [OF ex_find_rows(1) conjI [OF ex_find_rows(4) ex_failing(1)]]])
  have g: "fst (completePayment ex_env ex_ctx_failing ''1700000000000125'' ''PAYID-1'' GoldCoin
                  10 ex_world_pending) = Inl (Thrown ''recharge unavailable'')"
    by (rule completePayment_rethrows [where pt = GoldCoin, THEN conjunct2, THEN conjunct2,
          THEN conjunct1, rule_format, OF ok, unfolded productType.case, rule_format,
          OF conjI [OF ex_find_rows(2) conjI [OF ex_find_rows(5) ex_failing(2)]]])
  have t: "fst (completePayment ex_env ex_ctx_failing ''1700000000002050'' ''PAYID-3'' Translate
                  5 ex_world_orders) = Inl (TRPCError INTERNAL_SERVER_ERROR ''translate recharge'')"
    by (rule completePayment_rethrows [where pt = Translate, THEN conjunct2, THEN conjunct2,
          THEN conjunct1, rule_format, OF ok, unfolded productType.case, rule_format,
          OF conjI [OF ex_find_rows(3) conjI [OF ex_find_rows(6) ex_failing(3)]]])
  have la: "console (snd (completePayment ex_env_throwing ex_ctx ''1700000000000125''
                            ''PAYID-1'' GoldCoin 10 ex_world_pending)) =
              [(log_complete_failed, Thrown ''ECONNRESET'')]"
    using logged [OF a] by (simp add: ex_consoles)
  have lb: "console (snd (completePayment ex_env_offline ex_ctx ''1700000000000125''
                            ''PAYID-1'' GoldCoin 10 ex_world_pending)) =
              [(log_complete_failed, Thrown ''connection terminated'')]"
    using logged [OF b] by (simp add: ex_consoles)
  have lg: "console (snd (completePayment ex_env ex_ctx_failing ''1700000000000125''
                            ''PAYID-1'' GoldCoin 10 ex_world_pending)) =
              [(log_complete_failed, Thrown ''recharge unavailable'')]"
    using logged [OF g] by (simp add: ex_consoles)
  show ?thesis
    by (intro conjI ex_throwing ex_offline(2) a b v s g t la lb lg)
qed

section \<open>getOrderStatus: a read\<close>

lemma find_truncate:
  "List.find (\<lambda>r. orderNo r = ono) (map order_common.truncate tbl) =
     map_option order_common.truncate (List.find (\<lambda>r. orderNo r = ono) tbl)"
  by (induction tbl) (simp_all add: order_common.truncate_def)

lemma getOrderStatus_rows:
  assumes "rows =
             (case pt of
                Vip \<Rightarrow> map order_common.truncate (iRecordVip (db w))
              | Svip \<Rightarrow> map order_common.truncate (iRecordVip (db w))
              | GoldCoin \<Rightarrow> map order_common.truncate (iRecordGoldCoin (db w))
              | Translate \<Rightarrow> map order_common.truncate (iRecordTranslate (db w)))"
  shows "getOrderStatus ono pt w =
           (case List.find (\<lambda>r. orderNo r = ono) rows of
              None \<Rightarrow> Inl (TRPCError NOT_FOUND msg_order_not_found)
            | Some r \<Rightarrow>
                Inr \<lparr>os_orderNo = orderNo r, os_status = status r, os_amount = amount r,
                     os_payTime = payTime r\<rparr>, w)"
  unfolding assms
  by (cases pt)
    (simp_all add: getOrderStatus_def find_order_def findFirst_def find_truncate
      split: option.splits)

text \<open>
  Claim C8. Let \<open>rows\<close> be the rows of the table selected by \<^verbatim>\<open>productType\<close>, seen through
  the columns all order tables share. \<^verbatim>\<open>getOrderStatus\<close> changes nothing: the state after
  the call is the state before it. It throws \<^verbatim>\<open>NOT_FOUND\<close> when no row has the given
  \<^verbatim>\<open>orderNo\<close>. Otherwise there is a first row with that number, and the call returns the
  number and the \<^verbatim>\<open>status\<close>, \<^verbatim>\<open>amount\<close> and \<^verbatim>\<open>payTime\<close> stored in that row.
\<close>

theorem getOrderStatus_pure_read:
  assumes "rows =
             (case pt of
                Vip \<Rightarrow> map order_common.truncate (iRecordVip (db w))
              | Svip \<Rightarrow> map order_common.truncate (iRecordVip (db w))
              | GoldCoin \<Rightarrow> map order_common.truncate (iRecordGoldCoin (db w))
              | Translate \<Rightarrow> map order_common.truncate (iRecordTranslate (db w)))"
  shows "snd (getOrderStatus ono pt w) = w \<and>
         ((\<forall>r \<in> set rows. orderNo r \<noteq> ono) \<longrightarrow>
            fst (getOrderStatus ono pt w) = Inl (TRPCError NOT_FOUND msg_order_not_found)) \<and>
         ((\<exists>r \<in> set rows. orderNo r = ono) \<longrightarrow>
            (\<exists>r. List.find (\<lambda>r. orderNo r = ono) rows = Some r)) \<and>
         (\<forall>r. List.find (\<lambda>r. orderNo r = ono) rows = Some r \<longrightarrow>
            r \<in> set rows \<and> orderNo r = ono \<and>
            fst (getOrderStatus ono pt w) =
              Inr \<lparr>os_orderNo = ono, os_status = status r, os_amount = amount r,
                   os_payTime = payTime r\<rparr>)"
proof -
  note g = getOrderStatus_rows [OF assms, of ono]
  have a: "snd (getOrderStatus ono pt w) = w"
    by (simp add: g)
  have b: "(\<forall>r \<in> set rows. orderNo r \<noteq> ono) \<longrightarrow>
             fst (getOrderStatus ono pt w) = Inl (TRPCError NOT_FOUND msg_order_not_found)"
  proof
    assume "\<forall>r \<in> set rows. orderNo r \<noteq> ono"
    then have "List.find (\<lambda>r. orderNo r = ono) rows = None"
      by (simp add: find_None_iff)
    then show "fst (getOrderStatus ono pt w) = Inl (TRPCError NOT_FOUND msg_order_not_found)"
      by (simp add: g)
  qed
  have c: "(\<exists>r \<in> set rows. orderNo r = ono) \<longrightarrow>
             (\<exists>r. List.find (\<lambda>r. orderNo r = ono) rows = Some r)"
  proof
    assume "\<exists>r \<in> set rows. orderNo r = ono"
    then have "List.find (\<lambda>r. orderNo r = ono) rows \<noteq> None"
      by (auto simp: find_None_iff)
    then show "\<exists>r. List.find (\<lambda>r. orderNo r = ono) rows = Some r"
      by blast
  qed
  have d: "\<forall>r. List.find (\<lambda>r. orderNo r = ono) rows = Some r \<longrightarrow>
             r \<in> set rows \<and> orderNo r = ono \<and>
             fst (getOrderStatus ono pt w) =
               Inr \<lparr>os_orderNo = ono, os_status = status r, os_amount = amount r,
                    os_payTime = payTime r\<rparr>"
  proof (intro allI impI)
    fix r
    assume f: "List.find (\<lambda>r. orderNo r = ono) rows = Some r"
    from find_Some_row [OF f] have m: "r \<in> set rows" and o: "orderNo r = ono"
      by blast+
    have "fst (getOrderStatus ono pt w) =
            Inr \<lparr>os_orderNo = orderNo r, os_status = status r, os_amount = amount r,
                 os_payTime = payTime r\<rparr>"
      by (simp add: g f)
    with m o show "r \<in> set rows \<and> orderNo r = ono \<and>
             fst (getOrderStatus ono pt w) =
               Inr \<lparr>os_orderNo = ono, os_status = status r, os_amount = amount r,
                    os_payTime = payTime r\<rparr>"
      by simp
  qed
  show ?thesis
    by (intro conjI a b c d)
qed

lemma ex_rows:
  "[order_common.truncate ex_vip_order] =
     (case Vip of
        Vip \<Rightarrow> map order_common.truncate (iRecordVip (db ex_world_orders))
      | Svip \<Rightarrow> map order_common.truncate (iRecordVip (db ex_world_orders))
      | GoldCoin \<Rightarrow> map order_common.truncate (iRecordGoldCoin (db ex_world_orders))
      | Translate \<Rightarrow> map order_common.truncate (iRecordTranslate (db ex_world_orders)))"
  "[order_common.truncate ex_pending] =
     (case GoldCoin of
        Vip \<Rightarrow> map order_common.truncate (iRecordVip (db ex_world_orders))
      | Svip \<Rightarrow> map order_common.truncate (iRecordVip (db ex_world_orders))
      | GoldCoin \<Rightarrow> map order_common.truncate (iRecordGoldCoin (db ex_world_orders))
      | Translate \<Rightarrow> map order_common.truncate (iRecordTranslate (db ex_world_orders)))"
  by (simp_all add: ex_world_orders_def)

text \<open>
  In the state with one order in each table, the number of the VIP order is reported
  under \<^verbatim>\<open>'vip'\<close> with the stored fields of that order, and is not found under
  \<^verbatim>\<open>'goldCoin'\<close>, whose table holds an order with another number; the state is untouched
  both times.
\<close>

theorem getOrderStatus_pure_read_witness:
  "getOrderStatus ''1700000000001007'' Vip ex_world_orders =
     (Inr \<lparr>os_orderNo = ''1700000000001007'', os_status = 0, os_amount = ''19.99'',
           os_payTime = None\<rparr>, ex_world_orders) \<and>
   List.find (\<lambda>r. orderNo r = ''1700000000001007'') [order_common.truncate ex_vip_order] =
     Some (order_common.truncate ex_vip_order) \<and>
   map order_common.truncate (iRecordGoldCoin (db ex_world_orders)) =
     [order_common.truncate ex_pending] \<and>
   orderNo (order_common.truncate ex_pending) \<noteq> ''1700000000001007'' \<and>
   getOrderStatus ''1700000000001007'' GoldCoin ex_world_orders =
     (Inl (TRPCError NOT_FOUND msg_order_not_found), ex_world_orders)"
proof -
  note v = getOrderStatus_pure_read [OF ex_rows(1), of "''1700000000001007''"]
  note g = getOrderStatus_pure_read [OF ex_rows(2), of "''1700000000001007''"]
  have f: "List.find (\<lambda>r. orderNo r = ''1700000000001007'') [order_common.truncate ex_vip_order] =
             Some (order_common.truncate ex_vip_order)"
    by (simp add: ex_vip_order_def order_common.truncate_def)
  have n: "\<forall>r \<in> set [order_common.truncate ex_pending]. orderNo r \<noteq> ''1700000000001007''"
    by (simp add: ex_pending_def order_common.truncate_def)
  have a: "getOrderStatus ''1700000000001007'' Vip ex_world_orders =
     (Inr \<lparr>os_orderNo = ''1700000000001007'', os_status = 0, os_amount = ''19.99'',
           os_payTime = None\<rparr>, ex_world_orders)"
    using v [THEN conjunct1]
      v [THEN conjunct2, THEN conjunct2, THEN conjunct2, rule_format, OF f]
    by (simp add: prod_eq_iff ex_vip_order_def order_common.truncate_def)
  have b: "getOrderStatus ''1700000000001007'' GoldCoin ex_world_orders =
     (Inl (TRPCError NOT_FOUND msg_order_not_found), ex_world_orders)"
    using g [THEN conjunct1] g [THEN conjunct2, THEN conjunct1, THEN mp, OF n]
    by (simp add: prod_eq_iff)
  have m: "map order_common.truncate (iRecordGoldCoin (db ex_world_orders)) =
             [order_common.truncate ex_pending]"
    by (simp add: ex_world_orders_def)
  have o: "orderNo (order_common.truncate ex_pending) \<noteq> ''1700000000001007''"
    using n by simp
  show ?thesis
    by (intro conjI a f m o b)
qed

section \<open>initializePayment: the row inserted\<close>

lemma insert_order_rows:
  assumes "insert_order e pt ono user amt pd d = Inr d'"
  shows "d' =
           (case pt of
              Vip \<Rightarrow>
                d\<lparr>iRecordVip := iRecordVip d @
                     [\<lparr>orderNo = ono, buyUserId = user_id user, buyNickname = nickname user,
                       recipientUserId = user_id user, amount = amt, payType = 3, status = 0,
                       payTime = None, vipLevel = pd_vipLevel pd, month = pd_month pd\<rparr>]\<rparr>
            | Svip \<Rightarrow>
                d\<lparr>iRecordVip := iRecordVip d @
                     [\<lparr>orderNo = ono, buyUserId = user_id user, buyNickname = nickname user,
                       recipientUserId = user_id user, amount = amt, payType = 3, status = 0,
                       payTime = None, vipLevel = pd_vipLevel pd, month = pd_month pd\<rparr>]\<rparr>
            | GoldCoin \<Rightarrow>
                d\<lparr>iRecordGoldCoin := iRecordGoldCoin d @
                     [\<lparr>orderNo = ono, buyUserId = user_id user, buyNickname = nickname user,
                       recipientUserId = user_id user, amount = amt, payType = 3, status = 0,
                       payTime = None, goldCoin = pd_goldCoin pd\<rparr>]\<rparr>
            | Translate \<Rightarrow>
                d\<lparr>iRecordTranslate := iRecordTranslate d @
                     [\<lparr>orderNo = ono, buyUserId = user_id user, buyNickname = nickname user,
                       recipientUserId = user_id user, amount = amt, payType = 3, status = 0,
                       payTime = None, characterNum = pd_character pd\<rparr>]\<rparr>)"
  using assms
  by (cases pt) (auto simp: insert_order_def db_insert_def split: option.splits)

lemma initializePayment_Inr:
  assumes "fst (initializePayment e c amt pt pd w) = Inr res"
  shows "\<exists>user d.
           findFirst (\<lambda>u. clerkId u = userId c) (iUser (db w)) = Some user \<and>
           insert_order e pt (generateOrderNo (now e) (random e)) user amt pd (db w) = Inr d \<and>
           res = (True, generateOrderNo (now e) (random e)) \<and>
           snd (initializePayment e c amt pt pd w) = w\<lparr>db := d\<rparr>"
  using assms
  by (auto simp: initializePayment_def Let_def split: option.splits sum.splits)

section \<open>The product types vip and svip\<close>

lemma insert_order_vip_svip:
  "insert_order e Vip ono user amt pd d = insert_order e Svip ono user amt pd d"
  by (simp add: insert_order_def)

lemma find_order_vip_svip: "find_order Vip ono d = find_order Svip ono d"
  by (simp add: find_order_def)

lemma recharge_vip_svip:
  "recharge c Vip ono ord amt pid w = recharge c Svip ono ord amt pid w"
  by (simp add: recharge_def)

lemma complete_vip_cases:
  assumes "pt = Vip \<or> pt = Svip"
    and "verifyPayPalPayment e pid x = Inr vr" and "vr_verified vr"
    and "reject_query e ono = None"
  shows "fst (completePayment e c ono pid pt x w) =
           (case List.find (\<lambda>r. orderNo r = ono) (iRecordVip (db w)) of
              None \<Rightarrow> Inl (TRPCError NOT_FOUND msg_order_not_found)
            | Some r \<Rightarrow>
                if status r \<noteq> 0 then Inl (TRPCError BAD_REQUEST msg_order_state)
                else
                  (case fst (rechargeVip c ono (vipLevel r) (month r) (vr_amount vr) pid
                               (db w)) of
                     Some err \<Rightarrow> Inl err
                   | None \<Rightarrow> Inr (True, vr)))"
proof (cases "List.find (\<lambda>r. orderNo r = ono) (iRecordVip (db w))")
  case None
  then have "find_order pt ono (db w) = None"
    using assms(1) by (simp add: find_order_vip)
  from try_not_found [OF assms(2-4) this, of c] None show ?thesis
    by (simp add: completePayment_fst)
next
  case (Some r)
  show ?thesis
  proof (cases "status r = 0")
    case True
    from complete_vip [OF assms Some True, of c] Some True show ?thesis
      by simp
  next
    case False
    have f: "find_order pt ono (db w) = Some (VipOrder r)"
      using assms(1) Some by (simp add: find_order_vip)
    have s: "status (order_common_of (VipOrder r)) \<noteq> 0"
      using False by (simp add: order_common.truncate_def)
    from try_not_pending [OF assms(2-4) f s, of c] Some False show ?thesis
      by (simp add: completePayment_fst)
  qed
qed

text \<open>
  Claim C9. The three procedures do the same under \<^verbatim>\<open>'vip'\<close> and \<^verbatim>\<open>'svip'\<close>: with all
  other inputs equal, result and final state are equal. Both values use the table
  \<^verbatim>\<open>iRecordVip\<close>, stated here for \<^verbatim>\<open>'svip'\<close>: a call of \<^verbatim>\<open>initializePayment\<close> that returns
  has added exactly one row to \<^verbatim>\<open>iRecordVip\<close>, with the returned number and the level and
  months of the input; \<^verbatim>\<open>getOrderStatus\<close> reports the first row of \<^verbatim>\<open>iRecordVip\<close> with the
  given number, or \<^verbatim>\<open>NOT_FOUND\<close> if it has none; and \<^verbatim>\<open>completePayment\<close>, once the payment is
  confirmed and the lookup not rejected, decides on that same row of \<^verbatim>\<open>iRecordVip\<close> and
  credits through \<^verbatim>\<open>rechargeVip\<close>.
\<close>

theorem vip_svip_indistinguishable:
  "initializePayment e c amt Vip pd w = initializePayment e c amt Svip pd w \<and>
   completePayment e c ono pid Vip x w = completePayment e c ono pid Svip x w \<and>
   getOrderStatus ono Vip w = getOrderStatus ono Svip w \<and>
   (\<forall>n. fst (initializePayment e c amt Svip pd w) = Inr (True, n) \<longrightarrow>
      (\<exists>user.
         findFirst (\<lambda>u. clerkId u = userId c) (iUser (db w)) = Some user \<and>
         db (snd (initializePayment e c amt Svip pd w)) =
           (db w)\<lparr>iRecordVip := iRecordVip (db w) @
              [\<lparr>orderNo = n, buyUserId = user_id user, buyNickname = nickname user,
                recipientUserId = user_id user, amount = amt, payType = 3, status = 0,
                payTime = None, vipLevel = pd_vipLevel pd, month = pd_month pd\<rparr>]\<rparr>)) \<and>
   fst (getOrderStatus ono Svip w) =
     (case List.find (\<lambda>r. orderNo r = ono) (iRecordVip (db w)) of
        None \<Rightarrow> Inl (TRPCError NOT_FOUND msg_order_not_found)
      | Some r \<Rightarrow>
          Inr \<lparr>os_orderNo = orderNo r, os_status = status r, os_amount = amount r,
               os_payTime = payTime r\<rparr>) \<and>
   (\<forall>vr. verifyPayPalPayment e pid x = Inr vr \<and> vr_verified vr \<and>
        reject_query e ono = None \<longrightarrow>
      fst (completePayment e c ono pid Svip x w) =
        (case List.find (\<lambda>r. orderNo r = ono) (iRecordVip (db w)) of
           None \<Rightarrow> Inl (TRPCError NOT_FOUND msg_order_not_found)
         | Some r \<Rightarrow>
             if status r \<noteq> 0 then Inl (TRPCError BAD_REQUEST msg_order_state)
             else
               (case fst (rechargeVip c ono (vipLevel r) (month r) (vr_amount vr) pid
                            (db w)) of
                  Some err \<Rightarrow> Inl err
                | None \<Rightarrow> Inr (True, vr))))"
proof -
  have i: "initializePayment e c amt Vip pd w = initializePayment e c amt Svip pd w"
    by (simp add: initializePayment_def insert_order_vip_svip Let_def split: option.splits)
  have t: "completePayment_try e c ono pid Vip x w = completePayment_try e c ono pid Svip x w"
    by (simp add: completePayment_try_def query_order_def find_order_vip_svip
        recharge_vip_svip Let_def split: sum.splits option.splits)
  have p: "completePayment e c ono pid Vip x w = completePayment e c ono pid Svip x w"
    by (simp add: completePayment_def t)
  have g: "getOrderStatus ono Vip w = getOrderStatus ono Svip w"
    by (simp add: getOrderStatus_def find_order_vip_svip)
  have n: "\<forall>n. fst (initializePayment e c amt Svip pd w) = Inr (True, n) \<longrightarrow>
      (\<exists>user.
         findFirst (\<lambda>u. clerkId u = userId c) (iUser (db w)) = Some user \<and>
         db (snd (initializePayment e c amt Svip pd w)) =
           (db w)\<lparr>iRecordVip := iRecordVip (db w) @
              [\<lparr>orderNo = n, buyUserId = user_id user, buyNickname = nickname user,
                recipientUserId = user_id user, amount = amt, payType = 3, status = 0,
                payTime = None, vipLevel = pd_vipLevel pd, month = pd_month pd\<rparr>]\<rparr>)"
  proof (intro allI impI)
    fix n
    assume a: "fst (initializePayment e c amt Svip pd w) = Inr (True, n)"
    from initializePayment_Inr [OF a] obtain user d where
      u: "findFirst (\<lambda>u. clerkId u = userId c) (iUser (db w)) = Some user" and
      d: "insert_order e Svip (generateOrderNo (now e) (random e)) user amt pd (db w) = Inr d" and
      r: "n = generateOrderNo (now e) (random e)" and
      s: "snd (initializePayment e c amt Svip pd w) = w\<lparr>db := d\<rparr>"
      by auto
    from insert_order_rows [OF d] r s u
    show "\<exists>user.
         findFirst (\<lambda>u. clerkId u = userId c) (iUser (db w)) = Some user \<and>
         db (snd (initializePayment e c amt Svip pd w)) =
           (db w)\<lparr>iRecordVip := iRecordVip (db w) @
              [\<lparr>orderNo = n, buyUserId = user_id user, buyNickname = nickname user,
                recipientUserId = user_id user, amount = amt, payType = 3, status = 0,
                payTime = None, vipLevel = pd_vipLevel pd, month = pd_month pd\<rparr>]\<rparr>"
      by simp
  qed
  have s: "fst (getOrderStatus ono Svip w) =
     (case List.find (\<lambda>r. orderNo r = ono) (iRecordVip (db w)) of
        None \<Rightarrow> Inl (TRPCError NOT_FOUND msg_order_not_found)
      | Some r \<Rightarrow>
          Inr \<lparr>os_orderNo = orderNo r, os_status = status r, os_amount = amount r,
               os_payTime = payTime r\<rparr>)"
    by (simp add: getOrderStatus_def find_order_vip order_common.truncate_def
        split: option.splits)
  have k: "\<forall>vr. verifyPayPalPayment e pid x = Inr vr \<and> vr_verified vr \<and>
        reject_query e ono = None \<longrightarrow>
      fst (completePayment e c ono pid Svip x w) =
        (case List.find (\<lambda>r. orderNo r = ono) (iRecordVip (db w)) of
           None \<Rightarrow> Inl (TRPCError NOT_FOUND msg_order_not_found)
         | Some r \<Rightarrow>
             if status r \<noteq> 0 then Inl (TRPCError BAD_REQUEST msg_order_state)
             else
               (case fst (rechargeVip c ono (vipLevel r) (month r) (vr_amount vr) pid
                            (db w)) of
                  Some err \<Rightarrow> Inl err
                | None \<Rightarrow> Inr (True, vr)))"
  proof (intro allI impI, elim conjE)
    fix vr
    assume "verifyPayPalPayment e pid x = Inr vr" and "vr_verified vr"
      and "reject_query e ono = None"
    then show "fst (completePayment e c ono pid Svip x w) =
        (case List.find (\<lambda>r. orderNo r = ono) (iRecordVip (db w)) of
           None \<Rightarrow> Inl (TRPCError NOT_FOUND msg_order_not_found)
         | Some r \<Rightarrow>
             if status r \<noteq> 0 then Inl (TRPCError BAD_REQUEST msg_order_state)
             else
               (case fst (rechargeVip c ono (vipLevel r) (month r) (vr_amount vr) pid
                            (db w)) of
                  Some err \<Rightarrow> Inl err
                | None \<Rightarrow> Inr (True, vr)))"
      by (rule complete_vip_cases [where pt = Svip, OF disjI2 [OF refl]])
  qed
  show ?thesis
    by (intro conjI i p g n s k)
qed

lemma ex_resolve: "findFirst (\<lambda>u. clerkId u = userId ex_ctx) (iUser (db ex_world)) = Some ex_user"
  by (simp add: findFirst_def ex_defs)

lemma ex_initialize_svip:
  "initializePayment ex_env ex_ctx ''19.99'' Svip ex_vip_details ex_world =
     (Inr (True, ''1700000000000125''),
      ex_world\<lparr>db := (db ex_world)\<lparr>iRecordVip := [ex_vip_created]\<rparr>\<rparr>)"
  by (simp add: initializePayment_def insert_order_def db_insert_def findFirst_def ex_defs
      ex_orderNo Let_def)

text \<open>
  A VIP order created under \<^verbatim>\<open>'svip'\<close> is the one new row of \<^verbatim>\<open>iRecordVip\<close>; the stored VIP
  order is reported and credited under \<^verbatim>\<open>'svip'\<close>.
\<close>

theorem vip_svip_indistinguishable_witness:
  "fst (initializePayment ex_env ex_ctx ''19.99'' Svip ex_vip_details ex_world) =
     Inr (True, ''1700000000000125'') \<and>
   iRecordVip (db (snd (initializePayment ex_env ex_ctx ''19.99'' Svip ex_vip_details
                          ex_world))) = [ex_vip_created] \<and>
   initializePayment ex_env ex_ctx ''19.99'' Vip ex_vip_details ex_world =
     initializePayment ex_env ex_ctx ''19.99'' Svip ex_vip_details ex_world \<and>
   fst (getOrderStatus ''1700000000001007'' Svip ex_world_orders) =
     Inr \<lparr>os_orderNo = ''1700000000001007'', os_status = 0, os_amount = ''19.99'',
          os_payTime = None\<rparr> \<and>
   verifyPayPalPayment ex_env ''PAYID-2'' 20 = Inr ex_verified \<and>
   vr_verified ex_verified \<and>
   reject_query ex_env ''1700000000001007'' = None \<and>
   fst (completePayment ex_env ex_ctx ''1700000000001007'' ''PAYID-2'' Svip 20 ex_world_orders) =
     Inr (True, ex_verified)"
proof -
  note h = vip_svip_indistinguishable [where e = ex_env and c = ex_ctx]
  have f: "fst (initializePayment ex_env ex_ctx ''19.99'' Svip ex_vip_details ex_world) =
             Inr (True, ''1700000000000125'')"
    by (simp add: ex_initialize_svip)
  from h [where amt = "''19.99''" and pd = ex_vip_details and w = ex_world,
      THEN conjunct2, THEN conjunct2, THEN conjunct2, THEN conjunct1, rule_format, OF f]
  obtain user where
    u: "findFirst (\<lambda>u. clerkId u = userId ex_ctx) (iUser (db ex_world)) = Some user" and
    d: "db (snd (initializePayment ex_env ex_ctx ''19.99'' Svip ex_vip_details ex_world)) =
          (db ex_world)\<lparr>iRecordVip := iRecordVip (db ex_world) @
             [\<lparr>orderNo = ''1700000000000125'', buyUserId = user_id user,
               buyNickname = nickname user, recipientUserId = user_id user, amount = ''19.99'',
               payType = 3, status = 0, payTime = None, vipLevel = pd_vipLevel ex_vip_details,
               month = pd_month ex_vip_details\<rparr>]\<rparr>"
    by blast
  from u have "user = ex_user"
    by (simp add: ex_resolve)
  then have r: "iRecordVip (db (snd (initializePayment ex_env ex_ctx ''19.99'' Svip ex_vip_details
                                  ex_world))) = [ex_vip_created]"
    by (simp add: d) (simp add: ex_user_def ex_vip_details_def ex_vip_created_def ex_world_def)
  have i: "initializePayment ex_env ex_ctx ''19.99'' Vip ex_vip_details ex_world =
             initializePayment ex_env ex_ctx ''19.99'' Svip ex_vip_details ex_world"
    by (rule h [THEN conjunct1])
  from h [where ono = "''1700000000001007''" and w = ex_world_orders,
      THEN conjunct2, THEN conjunct2, THEN conjunct2, THEN conjunct2, THEN conjunct1]
  have g: "fst (getOrderStatus ''1700000000001007'' Svip ex_world_orders) =
     Inr \<lparr>os_orderNo = ''1700000000001007'', os_status = 0, os_amount = ''19.99'',
          os_payTime = None\<rparr>"
    by (simp add: ex_world_orders_def ex_vip_order_def)
  from h [where ono = "''1700000000001007''" and w = ex_world_orders and pid = "''PAYID-2''"
      and x = 20,
      THEN conjunct2, THEN conjunct2, THEN conjunct2, THEN conjunct2, THEN conjunct2,
      rule_format, OF conjI [OF ex_verify conjI [OF ex_is_verified ex_no_reject]]]
  have k: "fst (completePayment ex_env ex_ctx ''1700000000001007'' ''PAYID-2'' Svip 20
                  ex_world_orders) = Inr (True, ex_verified)"
    by (simp add: ex_world_orders_def ex_vip_order_def ex_ctx_def)
  show ?thesis
    by (intro conjI f r i g ex_verify ex_is_verified ex_no_reject k)
qed

section \<open>initializePayment: the order created, and the failures\<close>

lemma insert_order_Inr:
  assumes "insert_order e pt ono user amt pd d = Inr d'"
  shows "\<exists>ord. d' = add_order ord d \<and>
           order_common_of ord =
             \<lparr>orderNo = ono, buyUserId = user_id user, buyNickname = nickname user,
              recipientUserId = user_id user, amount = amt, payType = 3, status = 0,
              payTime = None\<rparr>"
proof (cases pt)
  case Vip
  with insert_order_rows [OF assms] show ?thesis
    by (intro exI [of _ "VipOrder \<lparr>orderNo = ono, buyUserId = user_id user,
          buyNickname = nickname user, recipientUserId = user_id user, amount = amt,
          payType = 3, status = 0, payTime = None, vipLevel = pd_vipLevel pd,
          month = pd_month pd\<rparr>"])
      (simp add: order_common.truncate_def)
next
  case Svip
  with insert_order_rows [OF assms] show ?thesis
    by (intro exI [of _ "VipOrder \<lparr>orderNo = ono, buyUserId = user_id user,
          buyNickname = nickname user, recipientUserId = user_id user, amount = amt,
          payType = 3, status = 0, payTime = None, vipLevel = pd_vipLevel pd,
          month = pd_month pd\<rparr>"])
      (simp add: order_common.truncate_def)
next
  case GoldCoin
  with insert_order_rows [OF assms] show ?thesis
    by (intro exI [of _ "GoldCoinOrder \<lparr>orderNo = ono, buyUserId = user_id user,
          buyNickname = nickname user, recipientUserId = user_id user, amount = amt,
          payType = 3, status = 0, payTime = None, goldCoin = pd_goldCoin pd\<rparr>"])
      (simp add: order_common.truncate_def)
next
  case Translate
  with insert_order_rows [OF assms] show ?thesis
    by (intro exI [of _ "TranslateOrder \<lparr>orderNo = ono, buyUserId = user_id user,
          buyNickname = nickname user, recipientUserId = user_id user, amount = amt,
          payType = 3, status = 0, payTime = None, characterNum = pd_character pd\<rparr>"])
      (simp add: order_common.truncate_def)
qed


lemma ex_insert_rejected:
  "insert_order ex_env_unique GoldCoin ''1700000000000125'' ex_user ''9.99'' ex_details
     (db ex_world_collision) = Inl (Thrown ''duplicate key'')"
  by (simp add: insert_order_def db_insert_def ex_defs)


lemma ex_resolve_collision:
  "findFirst (\<lambda>u. clerkId u = userId ex_ctx) (iUser (db ex_world_collision)) = Some ex_user"
  by (simp add: findFirst_def ex_defs)

lemma ex_no_stranger:
  "findFirst (\<lambda>u. clerkId u = userId ex_ctx_stranger) (iUser (db ex_world)) = None"
  by (simp add: findFirst_def ex_defs)


lemma ex_generated_unique:
  "generateOrderNo (now ex_env_unique) (random ex_env_unique) = ''1700000000000125''"
  by (simp add: ex_env_unique_def ex_env_def ex_orderNo)




text \<open>
  Claim C6. When no user has the caller's \<^verbatim>\<open>clerkId\<close>, \<^verbatim>\<open>initializePayment\<close> throws
  \<^verbatim>\<open>NOT_FOUND\<close> and the state is untouched: no row is inserted. When the buyer is resolved
  and the insert throws, the call throws \<^verbatim>\<open>INTERNAL_SERVER_ERROR\<close>; the database is the
  one the call started with, no collaborator was called, and the only trace is the
  console line with the error of the insert.
\<close>

theorem initializePayment_failures:
  "(findFirst (\<lambda>u. clerkId u = userId c) (iUser (db w)) = None \<longrightarrow>
      initializePayment e c amt pt pd w = (Inl (TRPCError NOT_FOUND msg_user_not_found), w)) \<and>
   (\<forall>user err.
      findFirst (\<lambda>u. clerkId u = userId c) (iUser (db w)) = Some user \<and>
      insert_order e pt (generateOrderNo (now e) (random e)) user amt pd (db w) = Inl err \<longrightarrow>
      fst (initializePayment e c amt pt pd w) =
        Inl (TRPCError INTERNAL_SERVER_ERROR msg_create_failed) \<and>
      db (snd (initializePayment e c amt pt pd w)) = db w \<and>
      calls (snd (initializePayment e c amt pt pd w)) = calls w \<and>
      console (snd (initializePayment e c amt pt pd w)) =
        console w @ [(log_create_failed, err)])"
  by (simp add: initializePayment_def Let_def)

text \<open>
  A caller with no account; and a buyer whose generated order number is already taken,
  under a schema with unique order numbers: the table still holds only the other order.
\<close>

theorem initializePayment_failures_witness:
  "findFirst (\<lambda>u. clerkId u = userId ex_ctx_stranger) (iUser (db ex_world)) = None \<and>
   initializePayment ex_env ex_ctx_stranger ''9.99'' GoldCoin ex_details ex_world =
     (Inl (TRPCError NOT_FOUND msg_user_not_found), ex_world) \<and>
   findFirst (\<lambda>u. clerkId u = userId ex_ctx) (iUser (db ex_world_collision)) = Some ex_user \<and>
   insert_order ex_env_unique GoldCoin (generateOrderNo (now ex_env_unique) (random ex_env_unique))
     ex_user ''9.99'' ex_details (db ex_world_collision) = Inl (Thrown ''duplicate key'') \<and>
   fst (initializePayment ex_env_unique ex_ctx ''9.99'' GoldCoin ex_details ex_world_collision) =
     Inl (TRPCError INTERNAL_SERVER_ERROR msg_create_failed) \<and>
   iRecordGoldCoin
     (db (snd (initializePayment ex_env_unique ex_ctx ''9.99'' GoldCoin ex_details
                 ex_world_collision))) = [ex_other_order] \<and>
   calls (snd (initializePayment ex_env_unique ex_ctx ''9.99'' GoldCoin ex_details
                 ex_world_collision)) = [] \<and>
   console (snd (initializePayment ex_env_unique ex_ctx ''9.99'' GoldCoin ex_details
                   ex_world_collision)) = [(log_create_failed, Thrown ''duplicate key'')]"
proof -
  have r: "insert_order ex_env_unique GoldCoin
             (generateOrderNo (now ex_env_unique) (random ex_env_unique))
             ex_user ''9.99'' ex_details (db ex_world_collision) = Inl (Thrown ''duplicate key'')"
    by (simp only: ex_generated_unique ex_insert_rejected)
  have a: "initializePayment ex_env ex_ctx_stranger ''9.99'' GoldCoin ex_details ex_world =
             (Inl (TRPCError NOT_FOUND msg_user_not_found), ex_world)"
    using initializePayment_failures [of ex_ctx_stranger ex_world ex_env "''9.99''" GoldCoin
        ex_details] ex_no_stranger
    by blast
  have b: "fst (initializePayment ex_env_unique ex_ctx ''9.99'' GoldCoin ex_details
                  ex_world_collision) =
             Inl (TRPCError INTERNAL_SERVER_ERROR msg_create_failed) \<and>
           db (snd (initializePayment ex_env_unique ex_ctx ''9.99'' GoldCoin ex_details
                      ex_world_collision)) = db ex_world_collision \<and>
           calls (snd (initializePayment ex_env_unique ex_ctx ''9.99'' GoldCoin ex_details
                         ex_world_collision)) = calls ex_world_collision \<and>
           console (snd (initializePayment ex_env_unique ex_ctx ''9.99'' GoldCoin ex_details
                           ex_world_collision)) =
             console ex_world_collision @ [(log_create_failed, Thrown ''duplicate key'')]"
    using initializePayment_failures [of ex_ctx ex_world_collision ex_env_unique "''9.99''"
        GoldCoin ex_details] ex_resolve_collision r
    by blast
  have c: "iRecordGoldCoin (db ex_world_collision) = [ex_other_order]"
    "calls ex_world_collision = []" "console ex_world_collision = []"
    by (simp_all add: ex_world_collision_def ex_world_def)
  from a b c ex_no_stranger ex_resolve_collision r show ?thesis
    by simp
qed

text \<open>
  Claim C10. Whatever the input, \<^verbatim>\<open>initializePayment\<close> either leaves the database as it
  was or adds one order row, and the row it adds has the resolved caller as buyer, the
  same user as recipient, and pay type 3 (PayPal).
\<close>

theorem initializePayment_recipient_payType:
  "db (snd (initializePayment e c amt pt pd w)) = db w \<or>
   (\<exists>ord user.
      findFirst (\<lambda>u. clerkId u = userId c) (iUser (db w)) = Some user \<and>
      db (snd (initializePayment e c amt pt pd w)) = add_order ord (db w) \<and>
      buyUserId (order_common_of ord) = user_id user \<and>
      recipientUserId (order_common_of ord) = buyUserId (order_common_of ord) \<and>
      payType (order_common_of ord) = 3)"
proof (cases "findFirst (\<lambda>u. clerkId u = userId c) (iUser (db w))")
  case None
  then show ?thesis by (simp add: initializePayment_def)
next
  case (Some user)
  show ?thesis
  proof (cases "insert_order e pt (generateOrderNo (now e) (random e)) user amt pd (db w)")
    case (Inl err)
    with Some show ?thesis by (simp add: initializePayment_def Let_def)
  next
    case (Inr d)
    from insert_order_Inr [OF Inr] obtain ord where
      "d = add_order ord (db w)" and
      "order_common_of ord =
         \<lparr>orderNo = generateOrderNo (now e) (random e), buyUserId = user_id user,
          buyNickname = nickname user, recipientUserId = user_id user, amount = amt,
          payType = 3, status = 0, payTime = None\<rparr>"
      by blast
    moreover have "db (snd (initializePayment e c amt pt pd w)) = d"
      using Some Inr by (simp add: initializePayment_def Let_def)
    ultimately show ?thesis using Some by auto
  qed
qed

text \<open>The order created in the state without orders: buyer and recipient are user 7.\<close>

theorem initializePayment_recipient_payType_witness:
  "db (snd (initializePayment ex_env ex_ctx ''9.99'' GoldCoin ex_details ex_world)) =
     add_order (GoldCoinOrder ex_pending) (db ex_world) \<and>
   buyUserId ex_pending = user_id ex_user \<and>
   recipientUserId ex_pending = buyUserId ex_pending \<and>
   payType ex_pending = 3"
  using initializePayment_recipient_payType [of ex_env ex_ctx "''9.99''" GoldCoin ex_details
      ex_world] ex_initialize
  by (simp add: ex_world_pending_def ex_world_def ex_pending_def ex_user_def)

end
